theory Spec2Isabelle
  imports Complex_Main
begin

section \<open>Values, errors and the scene\<close>

text \<open>
  The values a metadata dictionary can hold (what \<^verbatim>\<open>json.load\<close> produces, booleans
  apart). A dictionary is an association list in insertion order, looked up with
  \<^const>\<open>map_of\<close>. Python floats are idealised as reals throughout.
\<close>

datatype jv =
    JNone
  | JNum real
  | JStr string
  | JList "jv list"
  | JDict "(string \<times> jv) list"

type_synonym metadata = "(string \<times> jv) list"

text \<open>
  Exceptions are values: the class, and the message in structured form. The messages of
  the source are
  \<^item> \<open>Must_include_lighting_type\<close>: "Metadata must include 'lighting_type'";
  \<^item> \<open>Invalid_lighting_type v\<close>: "Invalid lighting_type: v. Must be one of [...]";
  \<^item> \<open>Must_include_lights v\<close>: "Metadata for v lighting must include 'lights' array";
  \<^item> \<open>Light_must_include a k\<close>: "a light metadata must include 'k'";
  \<^item> \<open>Invalid_generator_type s\<close>: "Invalid lighting type: s. Must be one of [...]".
  \<open>Missing_key k\<close> is the \<^verbatim>\<open>KeyError\<close> of a failed subscript \<^verbatim>\<open>d[k]\<close>; \<open>No_detail\<close>
  stands for whatever the interpreter or the host says about an ill-typed or ill-sized value.
\<close>

datatype exc_class = ValueError | KeyError | TypeError | IndexError

datatype detail =
    Must_include_lighting_type
  | Invalid_lighting_type jv
  | Must_include_lights jv
  | Light_must_include string string
  | Missing_key string
  | Invalid_generator_type string
  | No_detail

datatype error = Raise exc_class detail

fun class_of :: "error \<Rightarrow> exc_class" where
  "class_of (Raise c d) = c"

type_synonym vec3 = "real \<times> real \<times> real"

datatype shape = SQUARE | RECTANGLE | DISK | ELLIPSE

text \<open>
  A light datablock (\<^verbatim>\<open>bpy.data.lights.new\<close>) with the properties the source assigns;
  \<open>size_y\<close> is \<open>None\<close> when the source leaves it at the host's default.
\<close>

datatype light_data =
    POINT (energy: real) (color: vec3) (shadow_soft_size: real)
  | AREA (energy: real) (color: vec3) (area_shape: shape) (size: real) (size_y: "real option")
  | SUN (energy: real) (color: vec3) (angle: real)

text \<open>
  A light object linked into the current collection. A new object sits at the origin with
  no rotation until the source assigns \<^verbatim>\<open>location\<close> and \<^verbatim>\<open>rotation_euler\<close>.
\<close>

record light_obj =
  data :: light_data
  location :: vec3
  rotation_euler :: vec3

type_synonym scene = "light_obj list"

section \<open>The colour-temperature model\<close>

text \<open>\<^verbatim>\<open>blackbody_to_rgb\<close> (lighting.py, lines 171 to 189).\<close>

definition blackbody_to_rgb :: "real \<Rightarrow> vec3" where
  "blackbody_to_rgb temperature =
     (if temperature \<le> 4000
      then (1, 0.7 + 0.3 * (temperature - 2700) / 1300, 0.4 + 0.6 * (temperature - 2700) / 1300)
      else (1, 1, 0.8 + 0.2 * (temperature - 4000) / 2500))"


section \<open>Python operations on metadata values\<close>

text \<open>Sequencing of computations that may raise.\<close>

definition bindE :: "error + 'a \<Rightarrow> ('a \<Rightarrow> error + 'b) \<Rightarrow> error + 'b" where
  "bindE m f = (case m of Inl e \<Rightarrow> Inl e | Inr x \<Rightarrow> f x)"

text \<open>\<^verbatim>\<open>k in s\<close> on two strings: \<open>k\<close> occurs in \<open>s\<close> as a contiguous piece.\<close>

fun is_substring :: "string \<Rightarrow> string \<Rightarrow> bool" where
  "is_substring k [] = (k = [])"
| "is_substring k (c # s) = (take (length k) (c # s) = k \<or> is_substring k s)"

text \<open>\<^verbatim>\<open>k in v\<close> for a string key \<open>k\<close>.\<close>

fun py_contains :: "jv \<Rightarrow> string \<Rightarrow> error + bool" where
  "py_contains (JDict kvs) k = Inr (map_of kvs k \<noteq> None)"
| "py_contains (JList xs) k = Inr (JStr k \<in> set xs)"
| "py_contains (JStr s) k = Inr (is_substring k s)"
| "py_contains (JNum x) k = Inl (Raise TypeError No_detail)"
| "py_contains JNone k = Inl (Raise TypeError No_detail)"

text \<open>\<^verbatim>\<open>v[k]\<close> for a string key \<open>k\<close>.\<close>

fun py_getitem :: "jv \<Rightarrow> string \<Rightarrow> error + jv" where
  "py_getitem (JDict kvs) k =
     (case map_of kvs k of None \<Rightarrow> Inl (Raise KeyError (Missing_key k)) | Some v \<Rightarrow> Inr v)"
| "py_getitem (JList xs) k = Inl (Raise TypeError No_detail)"
| "py_getitem (JStr s) k = Inl (Raise TypeError No_detail)"
| "py_getitem (JNum x) k = Inl (Raise TypeError No_detail)"
| "py_getitem JNone k = Inl (Raise TypeError No_detail)"

text \<open>The elements \<^verbatim>\<open>tuple(v)\<close> and \<^verbatim>\<open>for x in v\<close> run through.\<close>

fun py_iter :: "jv \<Rightarrow> error + jv list" where
  "py_iter (JList xs) = Inr xs"
| "py_iter (JStr s) = Inr (map (\<lambda>c. JStr [c]) s)"
| "py_iter (JDict kvs) = Inr (map (\<lambda>kv. JStr (fst kv)) kvs)"
| "py_iter (JNum x) = Inl (Raise TypeError No_detail)"
| "py_iter JNone = Inl (Raise TypeError No_detail)"

text \<open>\<^verbatim>\<open>xs[i]\<close> on a tuple or list, for \<open>i \<ge> 0\<close>.\<close>

definition py_index :: "jv list \<Rightarrow> nat \<Rightarrow> error + jv" where
  "py_index xs i = (if i < length xs then Inr (xs ! i) else Inl (Raise IndexError No_detail))"

text \<open>
  What the host accepts when a float property, or a three-component vector property
  (\<^verbatim>\<open>color\<close>, \<^verbatim>\<open>location\<close>, \<^verbatim>\<open>Euler(...)\<close>), is assigned.
\<close>

fun as_float :: "jv \<Rightarrow> error + real" where
  "as_float (JNum x) = Inr x"
| "as_float JNone = Inl (Raise TypeError No_detail)"
| "as_float (JStr s) = Inl (Raise TypeError No_detail)"
| "as_float (JList xs) = Inl (Raise TypeError No_detail)"
| "as_float (JDict kvs) = Inl (Raise TypeError No_detail)"

definition as_vec3 :: "jv list \<Rightarrow> error + vec3" where
  "as_vec3 vs =
     (if length vs \<noteq> 3 then Inl (Raise ValueError No_detail)
      else bindE (as_float (vs ! 0)) (\<lambda>x.
           bindE (as_float (vs ! 1)) (\<lambda>y.
           bindE (as_float (vs ! 2)) (\<lambda>z. Inr (x, y, z)))))"

text \<open>A Python tuple of three floats, as a sequence of values.\<close>

definition tuple3 :: "vec3 \<Rightarrow> jv list" where
  "tuple3 v = [JNum (fst v), JNum (fst (snd v)), JNum (snd (snd v))]"

section \<open>Creating lights in the scene\<close>

text \<open>
  \<^verbatim>\<open>add_point_light\<close>, \<^verbatim>\<open>add_area_light\<close>, \<^verbatim>\<open>add_sun_light\<close> (lines 8 to 90). Each
  creates the datablock, assigns its properties, creates the object and links it, and only
  then assigns \<^verbatim>\<open>location\<close> and \<^verbatim>\<open>rotation_euler\<close>: when one of the last two assignments
  raises, the object is already part of the scene. Default arguments of the source are
  passed explicitly by the callers below.
\<close>

definition new_object :: "light_data \<Rightarrow> light_obj" where
  "new_object d = \<lparr>data = d, location = (0, 0, 0), rotation_euler = (0, 0, 0)\<rparr>"

definition add_point_light ::
  "jv list \<Rightarrow> jv \<Rightarrow> jv list \<Rightarrow> jv \<Rightarrow> scene \<Rightarrow> (error + light_obj) \<times> scene" where
  "add_point_light loc en col sz sc =
     (case bindE (as_float en) (\<lambda>e.
           bindE (as_vec3 col) (\<lambda>c.
           bindE (as_float sz) (\<lambda>s. Inr (POINT e c s)))) of
        Inl err \<Rightarrow> (Inl err, sc)
      | Inr d \<Rightarrow>
          (case as_vec3 loc of
             Inl err \<Rightarrow> (Inl err, sc @ [new_object d])
           | Inr l \<Rightarrow> (Inr ((new_object d)\<lparr>location := l\<rparr>),
                        sc @ [(new_object d)\<lparr>location := l\<rparr>])))"

definition add_area_light ::
  "jv list \<Rightarrow> jv list \<Rightarrow> jv \<Rightarrow> jv list \<Rightarrow> jv list \<Rightarrow> shape \<Rightarrow> scene
     \<Rightarrow> (error + light_obj) \<times> scene" where
  "add_area_light loc rot en col sz shp sc =
     (case bindE (as_float en) (\<lambda>e.
           bindE (as_vec3 col) (\<lambda>c.
           bindE (bindE (py_index sz 0) as_float) (\<lambda>s.
           if shp \<in> {RECTANGLE, ELLIPSE}
           then bindE (bindE (py_index sz 1) as_float) (\<lambda>sy. Inr (AREA e c shp s (Some sy)))
           else Inr (AREA e c shp s None)))) of
        Inl err \<Rightarrow> (Inl err, sc)
      | Inr d \<Rightarrow>
          (case as_vec3 loc of
             Inl err \<Rightarrow> (Inl err, sc @ [new_object d])
           | Inr l \<Rightarrow>
               (case as_vec3 rot of
                  Inl err \<Rightarrow> (Inl err, sc @ [(new_object d)\<lparr>location := l\<rparr>])
                | Inr r \<Rightarrow> (Inr ((new_object d)\<lparr>location := l, rotation_euler := r\<rparr>),
                             sc @ [(new_object d)\<lparr>location := l, rotation_euler := r\<rparr>]))))"

definition add_sun_light ::
  "jv list \<Rightarrow> jv \<Rightarrow> jv list \<Rightarrow> jv \<Rightarrow> scene \<Rightarrow> (error + light_obj) \<times> scene" where
  "add_sun_light rot en col ang sc =
     (case bindE (as_float en) (\<lambda>e.
           bindE (as_vec3 col) (\<lambda>c.
           bindE (as_float ang) (\<lambda>a. Inr (SUN e c a)))) of
        Inl err \<Rightarrow> (Inl err, sc)
      | Inr d \<Rightarrow>
          (case as_vec3 rot of
             Inl err \<Rightarrow> (Inl err, sc @ [new_object d])
           | Inr r \<Rightarrow> (Inr ((new_object d)\<lparr>rotation_euler := r\<rparr>),
                        sc @ [(new_object d)\<lparr>rotation_euler := r\<rparr>])))"

section \<open>Reconstruction from metadata\<close>

text \<open>
  \<^verbatim>\<open>setup_lighting_from_metadata\<close> (lines 445 to 545). The body of each of the four
  \<^verbatim>\<open>for\<close> loops is a function of the entry and the scene, returning the light it appends,
  if any. The arguments of a call are evaluated left to right before the call
  (\<open>area_args\<close>, \<open>sun_args\<close>, \<open>point_args\<close>); the fill light of the natural branch is
  created without a \<^verbatim>\<open>rotation\<close> argument.
\<close>

text \<open>
  \<^verbatim>\<open>blackbody_to_rgb(light_info[k])\<close> as an argument: the subscript, then the comparison
  and the float arithmetic, which raise \<^verbatim>\<open>TypeError\<close> on anything but a number. Numbers
  are reals here; an integer too large for a float, on which the float arithmetic of the
  source raises \<^verbatim>\<open>OverflowError\<close>, is outside the model, and statements that name the
  error of an entry assume a temperature below \<open>2 ^ 1024\<close> in absolute value.
\<close>

definition color_from_temperature :: "jv \<Rightarrow> string \<Rightarrow> error + jv list" where
  "color_from_temperature light_info k =
     bindE (bindE (py_getitem light_info k) as_float) (\<lambda>t. Inr (tuple3 (blackbody_to_rgb t)))"

definition lift_light :: "(error + light_obj) \<times> scene \<Rightarrow> (error + light_obj option) \<times> scene" where
  "lift_light r = (case r of (Inl e, sc) \<Rightarrow> (Inl e, sc) | (Inr light, sc) \<Rightarrow> (Inr (Some light), sc))"

definition must_include :: "string \<Rightarrow> string \<Rightarrow> error" where
  "must_include what k = Raise KeyError (Light_must_include what k)"

definition area_args ::
  "jv \<Rightarrow> bool \<Rightarrow> error + jv list \<times> jv list \<times> jv \<times> jv list \<times> jv list" where
  "area_args light_info with_rotation =
     bindE (bindE (py_getitem light_info ''position'') py_iter) (\<lambda>loc.
     bindE (if with_rotation then bindE (py_getitem light_info ''rotation'') py_iter
            else Inr [JNum 0, JNum 0, JNum 0]) (\<lambda>rot.
     bindE (py_getitem light_info ''energy'') (\<lambda>en.
     bindE (color_from_temperature light_info ''color_temperature'') (\<lambda>col.
     bindE (bindE (py_getitem light_info ''size'') py_iter) (\<lambda>sz.
     Inr (loc, rot, en, col, sz))))))"

definition area_from_info ::
  "jv \<Rightarrow> bool \<Rightarrow> scene \<Rightarrow> (error + light_obj option) \<times> scene" where
  "area_from_info light_info with_rotation sc =
     (case area_args light_info with_rotation of
        Inl e \<Rightarrow> (Inl e, sc)
      | Inr (loc, rot, en, col, sz) \<Rightarrow> lift_light (add_area_light loc rot en col sz RECTANGLE sc))"

definition studio_entry :: "jv \<Rightarrow> scene \<Rightarrow> (error + light_obj option) \<times> scene" where
  "studio_entry light_info sc =
     (case py_contains light_info ''role'' of
        Inl e \<Rightarrow> (Inl e, sc)
      | Inr False \<Rightarrow> (Inl (must_include ''Studio'' ''role''), sc)
      | Inr True \<Rightarrow>
          (case py_getitem light_info ''role'' of
             Inl e \<Rightarrow> (Inl e, sc)
           | Inr role \<Rightarrow>
               if role \<in> set [JStr ''key'', JStr ''fill'', JStr ''back'']
               then area_from_info light_info True sc
               else (Inr None, sc)))"

definition dramatic_entry :: "jv \<Rightarrow> scene \<Rightarrow> (error + light_obj option) \<times> scene" where
  "dramatic_entry light_info sc =
     (case py_contains light_info ''type'' of
        Inl e \<Rightarrow> (Inl e, sc)
      | Inr False \<Rightarrow> (Inl (must_include ''Dramatic'' ''type''), sc)
      | Inr True \<Rightarrow>
          (case py_getitem light_info ''type'' of
             Inl e \<Rightarrow> (Inl e, sc)
           | Inr ty \<Rightarrow>
               if ty = JStr ''area''
               then area_from_info light_info True sc
               else (Inr None, sc)))"

definition sun_args :: "jv \<Rightarrow> error + jv list \<times> jv \<times> jv list \<times> jv" where
  "sun_args light_info =
     bindE (bindE (py_getitem light_info ''rotation'') py_iter) (\<lambda>rot.
     bindE (py_getitem light_info ''energy'') (\<lambda>en.
     bindE (color_from_temperature light_info ''color_temperature'') (\<lambda>col.
     bindE (py_getitem light_info ''angle'') (\<lambda>ang.
     Inr (rot, en, col, ang)))))"

definition sun_from_info :: "jv \<Rightarrow> scene \<Rightarrow> (error + light_obj option) \<times> scene" where
  "sun_from_info light_info sc =
     (case sun_args light_info of
        Inl e \<Rightarrow> (Inl e, sc)
      | Inr (rot, en, col, ang) \<Rightarrow> lift_light (add_sun_light rot en col ang sc))"

definition natural_entry :: "jv \<Rightarrow> scene \<Rightarrow> (error + light_obj option) \<times> scene" where
  "natural_entry light_info sc =
     (case py_contains light_info ''type'' of
        Inl e \<Rightarrow> (Inl e, sc)
      | Inr False \<Rightarrow> (Inl (must_include ''Natural'' ''type''), sc)
      | Inr True \<Rightarrow>
          (case py_getitem light_info ''type'' of
             Inl e \<Rightarrow> (Inl e, sc)
           | Inr ty \<Rightarrow>
               if ty = JStr ''sun'' then sun_from_info light_info sc
               else if ty = JStr ''area'' then area_from_info light_info False sc
               else (Inr None, sc)))"

definition point_args :: "jv \<Rightarrow> error + jv list \<times> jv \<times> jv list \<times> jv" where
  "point_args light_info =
     bindE (bindE (py_getitem light_info ''position'') py_iter) (\<lambda>loc.
     bindE (py_getitem light_info ''energy'') (\<lambda>en.
     bindE (bindE (py_getitem light_info ''color'') py_iter) (\<lambda>col.
     bindE (py_getitem light_info ''size'') (\<lambda>sz.
     Inr (loc, en, col, sz)))))"

definition point_from_info :: "jv \<Rightarrow> scene \<Rightarrow> (error + light_obj option) \<times> scene" where
  "point_from_info light_info sc =
     (case point_args light_info of
        Inl e \<Rightarrow> (Inl e, sc)
      | Inr (loc, en, col, sz) \<Rightarrow> lift_light (add_point_light loc en col sz sc))"

definition random_entry :: "jv \<Rightarrow> scene \<Rightarrow> (error + light_obj option) \<times> scene" where
  "random_entry light_info sc =
     (case py_contains light_info ''type'' of
        Inl e \<Rightarrow> (Inl e, sc)
      | Inr False \<Rightarrow> (Inl (must_include ''Random'' ''type''), sc)
      | Inr True \<Rightarrow>
          (case py_getitem light_info ''type'' of
             Inl e \<Rightarrow> (Inl e, sc)
           | Inr ty \<Rightarrow>
               if ty = JStr ''point''
               then point_from_info light_info sc
               else (Inr None, sc)))"

text \<open>
  One \<^verbatim>\<open>for light_info in metadata['lights']\<close> loop: the first entry that raises ends the
  call, and the lights collected so far are not returned.
\<close>

fun decode_loop ::
  "(jv \<Rightarrow> scene \<Rightarrow> (error + light_obj option) \<times> scene) \<Rightarrow> jv list \<Rightarrow> scene
     \<Rightarrow> (error + light_obj list) \<times> scene" where
  "decode_loop body [] sc = (Inr [], sc)"
| "decode_loop body (light_info # rest) sc =
     (case body light_info sc of
        (Inl e, sc') \<Rightarrow> (Inl e, sc')
      | (Inr r, sc') \<Rightarrow>
          (case decode_loop body rest sc' of
             (Inl e, sc'') \<Rightarrow> (Inl e, sc'')
           | (Inr lights, sc'') \<Rightarrow>
               (Inr (case r of None \<Rightarrow> lights | Some light \<Rightarrow> light # lights), sc'')))"

definition valid_types :: "jv list" where
  "valid_types = [JStr ''env_map'', JStr ''studio'', JStr ''dramatic'', JStr ''natural'', JStr ''random'']"

definition entry_of :: "jv \<Rightarrow> jv \<Rightarrow> scene \<Rightarrow> (error + light_obj option) \<times> scene" where
  "entry_of lighting_type =
     (if lighting_type = JStr ''studio'' then studio_entry
      else if lighting_type = JStr ''dramatic'' then dramatic_entry
      else if lighting_type = JStr ''natural'' then natural_entry
      else random_entry)"

definition setup_lighting_from_metadata ::
  "metadata \<Rightarrow> scene \<Rightarrow> (error + light_obj list) \<times> scene" where
  "setup_lighting_from_metadata metadata sc =
     (let lighting_type = (case map_of metadata ''lighting_type'' of None \<Rightarrow> JNone | Some v \<Rightarrow> v) in
      if lighting_type = JNone
      then (Inl (Raise ValueError Must_include_lighting_type), sc)
      else if lighting_type \<notin> set valid_types
      then (Inl (Raise ValueError (Invalid_lighting_type lighting_type)), sc)
      else if lighting_type = JStr ''env_map'' then (Inr [], sc)
      else
        (case map_of metadata ''lights'' of
           None \<Rightarrow> (Inl (Raise KeyError (Must_include_lights lighting_type)), sc)
         | Some ls \<Rightarrow>
             (case py_iter ls of
                Inl e \<Rightarrow> (Inl e, sc)
              | Inr entries \<Rightarrow> decode_loop (entry_of lighting_type) entries sc)))"

section \<open>The random source and the mathematical library\<close>

text \<open>
  The state of the \<^verbatim>\<open>random\<close> module is the sequence of values \<^verbatim>\<open>random.random()\<close> is
  going to return; a draw returns the head and leaves the tail. \<^verbatim>\<open>uniform(a, b)\<close> is
  \<^verbatim>\<open>a + (b - a) * random()\<close>, as in the library; \<^verbatim>\<open>randint(a, b)\<close> is
  \<^verbatim>\<open>a + floor(random() * (b - a + 1))\<close>; \<^verbatim>\<open>choices\<close> bisects the cumulative weights at
  \<^verbatim>\<open>random() * total\<close>. The library returns values of \<^verbatim>\<open>random()\<close> in [0, 1):
  \<open>valid_rng\<close>.
\<close>

type_synonym rng = "nat \<Rightarrow> real"

definition py_random :: "rng \<Rightarrow> real \<times> rng" where
  "py_random g = (g 0, \<lambda>n. g (Suc n))"

definition uniform :: "real \<Rightarrow> real \<Rightarrow> rng \<Rightarrow> real \<times> rng" where
  "uniform a b g = (case py_random g of (u, g') \<Rightarrow> (a + (b - a) * u, g'))"

definition randint :: "int \<Rightarrow> int \<Rightarrow> rng \<Rightarrow> int \<times> rng" where
  "randint a b g = (case py_random g of (u, g') \<Rightarrow> (a + \<lfloor>u * of_int (b - a + 1)\<rfloor>, g'))"

fun accumulate :: "real \<Rightarrow> real list \<Rightarrow> real list" where
  "accumulate s [] = []"
| "accumulate s (w # ws) = (s + w) # accumulate (s + w) ws"

definition choices :: "string list \<Rightarrow> real list \<Rightarrow> rng \<Rightarrow> string \<times> rng" where
  "choices population weights g =
     (case py_random g of (u, g') \<Rightarrow>
        (let cum_weights = accumulate 0 weights;
             total = last cum_weights;
             hi = length population - 1
         in (population ! length (takeWhile (\<lambda>c. c \<le> u * total) (take hi cum_weights)), g')))"

definition valid_rng :: "rng \<Rightarrow> bool" where
  "valid_rng g = (\<forall>n. 0 \<le> g n \<and> g n < 1)"

definition radians :: "real \<Rightarrow> real" where
  "radians d = d * pi / 180"

text \<open>\<^verbatim>\<open>math.atan2(y, x)\<close>, signed zeros apart.\<close>

definition atan2 :: "real \<Rightarrow> real \<Rightarrow> real" where
  "atan2 y x =
     (if 0 < x then arctan (y / x)
      else if x < 0 then (if 0 \<le> y then arctan (y / x) + pi else arctan (y / x) - pi)
      else if 0 < y then pi / 2
      else if y < 0 then - pi / 2
      else 0)"

text \<open>\<^verbatim>\<open>str(n)\<close> for a natural number, used in the role names.\<close>

fun str_nat :: "nat \<Rightarrow> string" where
  "str_nat n =
     (if n < 10 then [''0123456789'' ! n]
      else str_nat (n div 10) @ [''0123456789'' ! (n mod 10)])"

declare str_nat.simps [simp del]

section \<open>Generation\<close>

text \<open>
  \<^verbatim>\<open>setup_studio_lighting\<close> (lines 121 to 169) and \<^verbatim>\<open>generate_random_lighting_setup\<close>
  (lines 197 to 443), one definition per branch. The result is the pair the source
  returns, or the exception, together with the scene and the random source afterwards.
\<close>

type_synonym gen_result = "(error + light_obj list \<times> metadata) \<times> scene \<times> rng"

definition lighting_types :: "(string \<times> real) list" where
  "lighting_types =
     [(''studio'', 0.25), (''dramatic'', 0.2), (''natural'', 0.25), (''random'', 0.15),
      (''env_map'', 0.15)]"

definition setup_studio_lighting ::
  "real \<Rightarrow> real \<Rightarrow> real \<Rightarrow> vec3 \<Rightarrow> vec3 \<Rightarrow> vec3 \<Rightarrow> scene \<Rightarrow> (error + light_obj list) \<times> scene" where
  "setup_studio_lighting key_light_energy fill_light_energy back_light_energy
       key_light_color fill_light_color back_light_color sc =
     (case add_area_light [JNum 4, JNum (- 4), JNum 4]
             [JNum (radians 45), JNum (radians 0), JNum (radians 45)]
             (JNum key_light_energy) (tuple3 key_light_color) [JNum 2, JNum 1] RECTANGLE sc of
        (Inl e, sc1) \<Rightarrow> (Inl e, sc1)
      | (Inr key_light, sc1) \<Rightarrow>
     (case add_area_light [JNum (- 4), JNum (- 4), JNum 2]
             [JNum (radians 30), JNum (radians 0), JNum (radians (- 45))]
             (JNum fill_light_energy) (tuple3 fill_light_color) [JNum 3, JNum 2] RECTANGLE sc1 of
        (Inl e, sc2) \<Rightarrow> (Inl e, sc2)
      | (Inr fill_light, sc2) \<Rightarrow>
     (case add_area_light [JNum 0, JNum 4, JNum 3]
             [JNum (radians (- 45)), JNum (radians 0), JNum (radians 0)]
             (JNum back_light_energy) (tuple3 back_light_color) [JNum 2, JNum 0.5] RECTANGLE sc2 of
        (Inl e, sc3) \<Rightarrow> (Inl e, sc3)
      | (Inr back_light, sc3) \<Rightarrow> (Inr [key_light, fill_light, back_light], sc3))))"

definition generate_env_map :: "scene \<Rightarrow> rng \<Rightarrow> gen_result" where
  "generate_env_map sc g =
     (let (strength, g1) = uniform 0.8 1.5 g
      in (Inr ([], [(''lighting_type'', JStr ''env_map''), (''lights'', JList []),
                    (''env_map'', JDict [(''strength'', JNum strength)])]), sc, g1))"

definition generate_studio :: "scene \<Rightarrow> rng \<Rightarrow> gen_result" where
  "generate_studio sc g =
     (let (key_energy, g1) = uniform 800 1500 g;
          (fill_energy, g2) = uniform 200 600 g1;
          (back_energy, g3) = uniform 400 800 g2;
          (key_temp, g4) = uniform 4000 5500 g3;
          (fill_temp, g5) = uniform 6000 7500 g4;
          (back_temp, g6) = uniform 2700 3500 g5
      in case setup_studio_lighting key_energy fill_energy back_energy
                (blackbody_to_rgb key_temp) (blackbody_to_rgb fill_temp) (blackbody_to_rgb back_temp) sc of
           (Inl e, sc') \<Rightarrow> (Inl e, sc', g6)
         | (Inr lights, sc') \<Rightarrow>
             (Inr (lights,
                [(''lighting_type'', JStr ''studio''),
                 (''lights'', JList
                   [JDict [(''type'', JStr ''area''), (''role'', JStr ''key''),
                           (''energy'', JNum key_energy), (''color_temperature'', JNum key_temp),
                           (''position'', JList [JNum 4, JNum (- 4), JNum 4]),
                           (''rotation'', JList [JNum (radians 45), JNum 0, JNum (radians 45)]),
                           (''size'', JList [JNum 2, JNum 1])],
                    JDict [(''type'', JStr ''area''), (''role'', JStr ''fill''),
                           (''energy'', JNum fill_energy), (''color_temperature'', JNum fill_temp),
                           (''position'', JList [JNum (- 4), JNum (- 4), JNum 2]),
                           (''rotation'', JList [JNum (radians 30), JNum 0, JNum (radians (- 45))]),
                           (''size'', JList [JNum 3, JNum 2])],
                    JDict [(''type'', JStr ''area''), (''role'', JStr ''back''),
                           (''energy'', JNum back_energy), (''color_temperature'', JNum back_temp),
                           (''position'', JList [JNum 0, JNum 4, JNum 3]),
                           (''rotation'', JList [JNum (radians (- 45)), JNum 0, JNum 0]),
                           (''size'', JList [JNum 2, JNum 0.5])]])]), sc', g6))"

definition sphere_point :: "real \<Rightarrow> real \<Rightarrow> real \<Rightarrow> vec3" where
  "sphere_point r phi theta = (r * sin phi * cos theta, r * sin phi * sin theta, r * cos phi)"

text \<open>The body of the \<^verbatim>\<open>dramatic\<close> loop, for index \<open>i\<close>: the light and its metadata entry.\<close>

definition dramatic_light :: "nat \<Rightarrow> scene \<Rightarrow> rng \<Rightarrow> (error + light_obj \<times> jv) \<times> scene \<times> rng" where
  "dramatic_light i sc g =
     (let (theta, g1) = uniform 0 (2 * pi) g;
          (phi, g2) = uniform 0 (pi / 2) g1;
          (r, g3) = uniform 2 4 g2;
          pos = sphere_point r phi theta;
          rot = (atan2 (- snd (snd pos)) (sqrt ((fst pos)\<^sup>2 + (fst (snd pos))\<^sup>2)), 0,
                 atan2 (fst (snd pos)) (fst pos) + pi);
          (energy, g4) = uniform 1000 2000 g3;
          (temp, g5) = uniform 2700 3500 g4;
          (size0, g6) = uniform 0.5 2 g5;
          (size1, g7) = uniform 0.5 2 g6
      in case add_area_light (tuple3 pos) (tuple3 rot) (JNum energy)
                (tuple3 (blackbody_to_rgb temp)) [JNum size0, JNum size1] RECTANGLE sc of
           (Inl e, sc') \<Rightarrow> (Inl e, sc', g7)
         | (Inr light, sc') \<Rightarrow>
             (Inr (light,
                JDict [(''type'', JStr ''area''), (''role'', JStr (''dramatic_'' @ str_nat (i + 1))),
                       (''energy'', JNum energy), (''color_temperature'', JNum temp),
                       (''position'', JList (tuple3 pos)), (''rotation'', JList (tuple3 rot)),
                       (''size'', JList [JNum size0, JNum size1])]), sc', g7))"

text \<open>The body of the \<^verbatim>\<open>random\<close> loop.\<close>

definition random_light :: "nat \<Rightarrow> scene \<Rightarrow> rng \<Rightarrow> (error + light_obj \<times> jv) \<times> scene \<times> rng" where
  "random_light i sc g =
     (let (theta, g1) = uniform 0 (2 * pi) g;
          (phi, g2) = uniform 0 pi g1;
          (r, g3) = uniform 2 4 g2;
          pos = sphere_point r phi theta;
          (energy, g4) = uniform 300 800 g3;
          (temp, g5) = uniform 4000 5500 g4;
          color = blackbody_to_rgb temp
      in case add_point_light (tuple3 pos) (JNum energy) (tuple3 color) (JNum 0.1) sc of
           (Inl e, sc') \<Rightarrow> (Inl e, sc', g5)
         | (Inr light, sc') \<Rightarrow>
             (Inr (light,
                JDict [(''type'', JStr ''point''), (''role'', JStr (''random_'' @ str_nat (i + 1))),
                       (''energy'', JNum energy), (''color_temperature'', JNum temp),
                       (''color'', JList (tuple3 color)), (''position'', JList (tuple3 pos)),
                       (''size'', JNum 0.1)]), sc', g5))"

text \<open>\<^verbatim>\<open>for i in range(n)\<close>, appending one light and one entry per round.\<close>

fun gen_loop ::
  "(nat \<Rightarrow> scene \<Rightarrow> rng \<Rightarrow> (error + light_obj \<times> jv) \<times> scene \<times> rng) \<Rightarrow> nat \<Rightarrow> nat \<Rightarrow> scene \<Rightarrow> rng
     \<Rightarrow> (error + light_obj list \<times> jv list) \<times> scene \<times> rng" where
  "gen_loop body i 0 sc g = (Inr ([], []), sc, g)"
| "gen_loop body i (Suc n) sc g =
     (case body i sc g of
        (Inl e, sc', g') \<Rightarrow> (Inl e, sc', g')
      | (Inr (light, info), sc', g') \<Rightarrow>
          (case gen_loop body (Suc i) n sc' g' of
             (Inl e, sc'', g'') \<Rightarrow> (Inl e, sc'', g'')
           | (Inr (lights, infos), sc'', g'') \<Rightarrow> (Inr (light # lights, info # infos), sc'', g'')))"

definition generate_loop ::
  "string \<Rightarrow> (nat \<Rightarrow> scene \<Rightarrow> rng \<Rightarrow> (error + light_obj \<times> jv) \<times> scene \<times> rng) \<Rightarrow> int \<Rightarrow> scene \<Rightarrow> rng
     \<Rightarrow> gen_result" where
  "generate_loop lighting_type body num_lights sc g =
     (case gen_loop body 0 (nat num_lights) sc g of
        (Inl e, sc', g') \<Rightarrow> (Inl e, sc', g')
      | (Inr (lights, infos), sc', g') \<Rightarrow>
          (Inr (lights, [(''lighting_type'', JStr lighting_type), (''lights'', JList infos)]), sc', g'))"

definition generate_dramatic :: "scene \<Rightarrow> rng \<Rightarrow> gen_result" where
  "generate_dramatic sc g =
     (let (num_lights, g1) = randint 1 2 g
      in generate_loop ''dramatic'' dramatic_light num_lights sc g1)"

definition generate_random :: "string \<Rightarrow> scene \<Rightarrow> rng \<Rightarrow> gen_result" where
  "generate_random lighting_type sc g =
     (let (num_lights, g1) = randint 2 5 g
      in generate_loop lighting_type random_light num_lights sc g1)"

definition generate_natural :: "scene \<Rightarrow> rng \<Rightarrow> gen_result" where
  "generate_natural sc g =
     (let (elevation, g1) = uniform (- 60) (- 30) g;
          (azimuth, g2) = uniform 0 360 g1;
          sun_rot = (radians elevation, radians azimuth, 0);
          (sun_energy, g3) = uniform 2 5 g2;
          (sun_angle_deg, g4) = uniform 0.5 5 g3;
          sun_angle = radians sun_angle_deg;
          (sun_temp, g5) = uniform 4000 5500 g4
      in case add_sun_light (tuple3 sun_rot) (JNum sun_energy) (tuple3 (blackbody_to_rgb sun_temp))
                (JNum sun_angle) sc of
           (Inl e, sc1) \<Rightarrow> (Inl e, sc1, g5)
         | (Inr sun, sc1) \<Rightarrow>
     (let (fill_x, g6) = uniform (- 3) 3 g5;
          (fill_y, g7) = uniform (- 3) 3 g6;
          (fill_z, g8) = uniform 1 3 g7;
          fill_pos = (fill_x, fill_y, fill_z);
          (fill_energy, g9) = uniform 200 400 g8;
          (fill_temp, g10) = uniform 6000 7500 g9;
          (fill_size0, g11) = uniform 1 3 g10;
          (fill_size1, g12) = uniform 1 3 g11
      in case add_area_light (tuple3 fill_pos) [JNum 0, JNum 0, JNum 0] (JNum fill_energy)
                (tuple3 (blackbody_to_rgb fill_temp)) [JNum fill_size0, JNum fill_size1] RECTANGLE sc1 of
           (Inl e, sc2) \<Rightarrow> (Inl e, sc2, g12)
         | (Inr fill, sc2) \<Rightarrow>
             (Inr ([sun, fill],
                [(''lighting_type'', JStr ''natural''),
                 (''lights'', JList
                   [JDict [(''type'', JStr ''sun''), (''role'', JStr ''main''),
                           (''energy'', JNum sun_energy), (''color_temperature'', JNum sun_temp),
                           (''rotation'', JList (tuple3 sun_rot)), (''angle'', JNum sun_angle)],
                    JDict [(''type'', JStr ''area''), (''role'', JStr ''fill''),
                           (''energy'', JNum fill_energy), (''color_temperature'', JNum fill_temp),
                           (''position'', JList (tuple3 fill_pos)),
                           (''size'', JList [JNum fill_size0, JNum fill_size1])]])]), sc2, g12)))"

definition generate_for :: "string \<Rightarrow> scene \<Rightarrow> rng \<Rightarrow> gen_result" where
  "generate_for lighting_type sc g =
     (if lighting_type = ''env_map'' then generate_env_map sc g
      else if lighting_type = ''studio'' then generate_studio sc g
      else if lighting_type = ''dramatic'' then generate_dramatic sc g
      else if lighting_type = ''natural'' then generate_natural sc g
      else generate_random lighting_type sc g)"

definition generate_random_lighting_setup :: "string option \<Rightarrow> scene \<Rightarrow> rng \<Rightarrow> gen_result" where
  "generate_random_lighting_setup lighting_type sc g =
     (case lighting_type of
        Some lt \<Rightarrow>
          if lt \<notin> set (map fst lighting_types)
          then (Inl (Raise ValueError (Invalid_generator_type lt)), sc, g)
          else generate_for lt sc g
      | None \<Rightarrow>
          (case choices (map fst lighting_types) (map snd lighting_types) g of
             (lt, g') \<Rightarrow> generate_for lt sc g'))"

section \<open>What each branch of the reconstruction reads\<close>

text \<open>
  The key each loop tests for (\<^verbatim>\<open>'role'\<close> in the studio branch, \<^verbatim>\<open>'type'\<close> in the
  others), the values of it that the branch acts on, the name in its error message, and
  the keys it then subscripts, in the order of the call's arguments. An unknown
  \<open>lighting_type\<close> is listed like \<^verbatim>\<open>'random'\<close>, the final \<^verbatim>\<open>else\<close>.
\<close>

definition discriminant :: "jv \<Rightarrow> string" where
  "discriminant lt = (if lt = JStr ''studio'' then ''role'' else ''type'')"

definition recognized :: "jv \<Rightarrow> jv list" where
  "recognized lt =
     (if lt = JStr ''studio'' then [JStr ''key'', JStr ''fill'', JStr ''back'']
      else if lt = JStr ''dramatic'' then [JStr ''area'']
      else if lt = JStr ''natural'' then [JStr ''sun'', JStr ''area'']
      else [JStr ''point''])"

definition archetype_name :: "jv \<Rightarrow> string" where
  "archetype_name lt =
     (if lt = JStr ''studio'' then ''Studio''
      else if lt = JStr ''dramatic'' then ''Dramatic''
      else if lt = JStr ''natural'' then ''Natural''
      else ''Random'')"



text \<open>A complete area-light entry with the given role and extra fields, for the examples.\<close>

definition sample_area_info :: "string \<Rightarrow> (string \<times> jv) list \<Rightarrow> jv" where
  "sample_area_info role extra =
     JDict ([(''type'', JStr ''area''), (''role'', JStr role), (''energy'', JNum 1000),
             (''color_temperature'', JNum 2700),
             (''position'', JList [JNum 4, JNum (- 4), JNum 4]),
             (''rotation'', JList [JNum 0, JNum 0, JNum 0]),
             (''size'', JList [JNum 2, JNum 1])] @ extra)"

definition sample_area_light :: light_obj where
  "sample_area_light =
     \<lparr>data = AREA 1000 (1, 0.7, 0.4) RECTANGLE 2 (Some 1), location = (4, - 4, 4),
      rotation_euler = (0, 0, 0)\<rparr>"

section \<open>The call in a program state\<close>

text \<open>
  The state a call runs in is the scene together with the state of the \<^verbatim>\<open>random\<close>
  module. \<^verbatim>\<open>setup_lighting_from_metadata\<close> calls nothing of \<^verbatim>\<open>random\<close> (lines 445 to 545
  contain no such call, nor do the three \<^verbatim>\<open>add_..._light\<close> functions), so the random
  source after the call is the one before it.
\<close>

definition run_setup_lighting_from_metadata ::
  "metadata \<Rightarrow> scene \<times> rng \<Rightarrow> (error + light_obj list) \<times> scene \<times> rng" where
  "run_setup_lighting_from_metadata md st =
     (case setup_lighting_from_metadata md (fst st) of (r, sc') \<Rightarrow> (r, sc', snd st))"

text \<open>
  The studio setup the generator draws from the all-zero random source: the lights and
  the metadata.
\<close>

definition studio_zero_lights :: "light_obj list" where
  "studio_zero_lights =
     [\<lparr>data = AREA 800 (1, 1, 1) RECTANGLE 2 (Some 1), location = (4, - 4, 4),
       rotation_euler = (radians 45, 0, radians 45)\<rparr>,
      \<lparr>data = AREA 200 (1, 1, 0.96) RECTANGLE 3 (Some 2), location = (- 4, - 4, 2),
       rotation_euler = (radians 30, 0, radians (- 45))\<rparr>,
      \<lparr>data = AREA 400 (1, 0.7, 0.4) RECTANGLE 2 (Some 0.5), location = (0, 4, 3),
       rotation_euler = (radians (- 45), 0, 0)\<rparr>]"

definition studio_zero_metadata :: metadata where
  "studio_zero_metadata =
     [(''lighting_type'', JStr ''studio''),
      (''lights'', JList
        [JDict [(''type'', JStr ''area''), (''role'', JStr ''key''),
                (''energy'', JNum 800), (''color_temperature'', JNum 4000),
                (''position'', JList [JNum 4, JNum (- 4), JNum 4]),
                (''rotation'', JList [JNum (radians 45), JNum 0, JNum (radians 45)]),
                (''size'', JList [JNum 2, JNum 1])],
         JDict [(''type'', JStr ''area''), (''role'', JStr ''fill''),
                (''energy'', JNum 200), (''color_temperature'', JNum 6000),
                (''position'', JList [JNum (- 4), JNum (- 4), JNum 2]),
                (''rotation'', JList [JNum (radians 30), JNum 0, JNum (radians (- 45))]),
                (''size'', JList [JNum 3, JNum 2])],
         JDict [(''type'', JStr ''area''), (''role'', JStr ''back''),
                (''energy'', JNum 400), (''color_temperature'', JNum 2700),
                (''position'', JList [JNum 0, JNum 4, JNum 3]),
                (''rotation'', JList [JNum (radians (- 45)), JNum 0, JNum 0]),
                (''size'', JList [JNum 2, JNum 0.5])]])]"

section \<open>Properties of a generated setup\<close>

text \<open>The \<^verbatim>\<open>type\<close> the datablock was created with.\<close>

definition light_kind :: "light_obj \<Rightarrow> string" where
  "light_kind l = (case data l of POINT e c s \<Rightarrow> ''POINT'' | AREA e c sh s sy \<Rightarrow> ''AREA''
                   | SUN e c a \<Rightarrow> ''SUN'')"

text \<open>
  A numeric field of an entry lies in a closed interval; so does one component of a list
  field; the position lies between two spheres around the origin.
\<close>

definition field_in :: "jv \<Rightarrow> string \<Rightarrow> real \<Rightarrow> real \<Rightarrow> bool" where
  "field_in info k lo hi =
     (case bindE (py_getitem info k) as_float of Inl e \<Rightarrow> False | Inr x \<Rightarrow> lo \<le> x \<and> x \<le> hi)"

definition component_in :: "jv \<Rightarrow> string \<Rightarrow> nat \<Rightarrow> real \<Rightarrow> real \<Rightarrow> bool" where
  "component_in info k i lo hi =
     (case bindE (bindE (py_getitem info k) py_iter) (\<lambda>xs. bindE (py_index xs i) as_float) of
        Inl e \<Rightarrow> False
      | Inr x \<Rightarrow> lo \<le> x \<and> x \<le> hi)"

definition radius_in :: "jv \<Rightarrow> real \<Rightarrow> real \<Rightarrow> bool" where
  "radius_in info lo hi =
     (case bindE (bindE (py_getitem info ''position'') py_iter) as_vec3 of
        Inl e \<Rightarrow> False
      | Inr (x, y, z) \<Rightarrow> lo\<^sup>2 \<le> x\<^sup>2 + y\<^sup>2 + z\<^sup>2 \<and> x\<^sup>2 + y\<^sup>2 + z\<^sup>2 \<le> hi\<^sup>2)"

text \<open>The intervals each branch of the generator samples from, read off the metadata.\<close>

definition studio_bounds :: "jv list \<Rightarrow> bool" where
  "studio_bounds infos =
     (case infos of
        [key, fill, back] \<Rightarrow>
          field_in key ''energy'' 800 1500 \<and> field_in key ''color_temperature'' 4000 5500 \<and>
          field_in fill ''energy'' 200 600 \<and> field_in fill ''color_temperature'' 6000 7500 \<and>
          field_in back ''energy'' 400 800 \<and> field_in back ''color_temperature'' 2700 3500
      | _ \<Rightarrow> False)"

definition dramatic_bounds :: "jv \<Rightarrow> bool" where
  "dramatic_bounds info =
     (field_in info ''energy'' 1000 2000 \<and> field_in info ''color_temperature'' 2700 3500 \<and>
      radius_in info 2 4 \<and> component_in info ''position'' 2 0 4 \<and>
      component_in info ''size'' 0 0.5 2 \<and> component_in info ''size'' 1 0.5 2)"

definition natural_bounds :: "jv list \<Rightarrow> bool" where
  "natural_bounds infos =
     (case infos of
        [sun, fill] \<Rightarrow>
          component_in sun ''rotation'' 0 (radians (- 60)) (radians (- 30)) \<and>
          component_in sun ''rotation'' 1 0 (radians 360) \<and>
          field_in sun ''energy'' 2 5 \<and>
          field_in sun ''angle'' (radians 0.5) (radians 5) \<and>
          field_in sun ''color_temperature'' 4000 5500 \<and>
          component_in fill ''position'' 0 (- 3) 3 \<and>
          component_in fill ''position'' 1 (- 3) 3 \<and>
          component_in fill ''position'' 2 1 3 \<and>
          field_in fill ''energy'' 200 400 \<and>
          field_in fill ''color_temperature'' 6000 7500 \<and>
          component_in fill ''size'' 0 1 3 \<and> component_in fill ''size'' 1 1 3
      | _ \<Rightarrow> False)"

definition random_bounds :: "jv \<Rightarrow> bool" where
  "random_bounds info =
     (radius_in info 2 4 \<and> field_in info ''energy'' 300 800 \<and>
      field_in info ''color_temperature'' 4000 5500)"

definition sampled_in_bounds :: "metadata \<Rightarrow> bool" where
  "sampled_in_bounds md =
     (case (map_of md ''lighting_type'', map_of md ''lights'') of
        (Some lt, Some (JList infos)) \<Rightarrow>
          if lt = JStr ''env_map''
          then (case map_of md ''env_map'' of
                  None \<Rightarrow> False | Some env \<Rightarrow> field_in env ''strength'' 0.8 1.5)
          else if lt = JStr ''studio'' then studio_bounds infos
          else if lt = JStr ''dramatic'' then list_all dramatic_bounds infos
          else if lt = JStr ''natural'' then natural_bounds infos
          else if lt = JStr ''random'' then list_all random_bounds infos
          else False
      | _ \<Rightarrow> False)"

text \<open>The number and kinds of lights of each archetype.\<close>

definition cardinality_ok :: "metadata \<Rightarrow> light_obj list \<Rightarrow> bool" where
  "cardinality_ok md lights =
     (case (map_of md ''lighting_type'', map_of md ''lights'') of
        (Some lt, Some (JList infos)) \<Rightarrow>
          if lt = JStr ''env_map'' then lights = []
          else if lt = JStr ''studio''
          then map light_kind lights = [''AREA'', ''AREA'', ''AREA''] \<and>
               map (\<lambda>info. py_getitem info ''role'') infos =
                 [Inr (JStr ''key''), Inr (JStr ''fill''), Inr (JStr ''back'')]
          else if lt = JStr ''dramatic''
          then (length lights = 1 \<or> length lights = 2) \<and>
               list_all (\<lambda>l. light_kind l = ''AREA'') lights
          else if lt = JStr ''natural'' then map light_kind lights = [''SUN'', ''AREA'']
          else if lt = JStr ''random''
          then 2 \<le> length lights \<and> length lights \<le> 5 \<and>
               list_all (\<lambda>l. light_kind l = ''POINT'') lights
          else False
      | _ \<Rightarrow> False)"

section \<open>Auxiliary facts\<close>

lemma bindE_Inl [simp]: "bindE (Inl e) f = Inl e"
  by (simp add: bindE_def)

lemma bindE_Inr [simp]: "bindE (Inr x) f = f x"
  by (simp add: bindE_def)

lemma lift_light_Inl [simp]: "lift_light (Inl e, sc) = (Inl e, sc)"
  by (simp add: lift_light_def)

lemma lift_light_Inr [simp]: "lift_light (Inr l, sc) = (Inr (Some l), sc)"
  by (simp add: lift_light_def)

lemma as_float_eq_Inr: "as_float v = Inr x \<longleftrightarrow> v = JNum x"
  by (cases v) simp_all

lemma as_vec3_nums [simp]: "as_vec3 [JNum x, JNum y, JNum z] = Inr (x, y, z)"
  by (simp add: as_vec3_def)

lemma as_vec3_tuple3 [simp]: "as_vec3 (tuple3 v) = Inr v"
  by (simp add: as_vec3_def tuple3_def)

section \<open>Reconstruction\<close>

lemma lift_area_sc:
  "lift_light (add_area_light loc rot en col sz shp sc) =
     (case lift_light (add_area_light loc rot en col sz shp []) of (r, new) \<Rightarrow> (r, sc @ new))"
  by (simp add: add_area_light_def split: sum.split)

lemma lift_point_sc:
  "lift_light (add_point_light loc en col sz sc) =
     (case lift_light (add_point_light loc en col sz []) of (r, new) \<Rightarrow> (r, sc @ new))"
  by (simp add: add_point_light_def split: sum.split)

lemma lift_sun_sc:
  "lift_light (add_sun_light rot en col ang sc) =
     (case lift_light (add_sun_light rot en col ang []) of (r, new) \<Rightarrow> (r, sc @ new))"
  by (simp add: add_sun_light_def split: sum.split)

lemma area_from_info_sc:
  "area_from_info e w sc = (case area_from_info e w [] of (r, new) \<Rightarrow> (r, sc @ new))"
  unfolding area_from_info_def
  by (simp split: sum.split prod.split add: lift_area_sc [where sc = sc])

lemma sun_from_info_sc:
  "sun_from_info e sc = (case sun_from_info e [] of (r, new) \<Rightarrow> (r, sc @ new))"
  unfolding sun_from_info_def
  by (simp split: sum.split prod.split add: lift_sun_sc [where sc = sc])

lemma point_from_info_sc:
  "point_from_info e sc = (case point_from_info e [] of (r, new) \<Rightarrow> (r, sc @ new))"
  unfolding point_from_info_def
  by (simp split: sum.split prod.split add: lift_point_sc [where sc = sc])

lemma studio_entry_sc:
  "studio_entry e sc = (case studio_entry e [] of (r, new) \<Rightarrow> (r, sc @ new))"
  unfolding studio_entry_def
  by (simp split: sum.split bool.split add: area_from_info_sc [of e True sc])

lemma dramatic_entry_sc:
  "dramatic_entry e sc = (case dramatic_entry e [] of (r, new) \<Rightarrow> (r, sc @ new))"
  unfolding dramatic_entry_def
  by (simp split: sum.split bool.split add: area_from_info_sc [of e True sc])

lemma natural_entry_sc:
  "natural_entry e sc = (case natural_entry e [] of (r, new) \<Rightarrow> (r, sc @ new))"
  unfolding natural_entry_def
  by (simp split: sum.split bool.split add: area_from_info_sc [of e False sc] sun_from_info_sc [of e sc])

lemma random_entry_sc:
  "random_entry e sc = (case random_entry e [] of (r, new) \<Rightarrow> (r, sc @ new))"
  unfolding random_entry_def
  by (simp split: sum.split bool.split add: point_from_info_sc [of e sc])

lemma entry_of_sc:
  "entry_of lt e sc = (case entry_of lt e [] of (r, new) \<Rightarrow> (r, sc @ new))"
  by (simp add: entry_of_def studio_entry_sc [of e sc] dramatic_entry_sc [of e sc]
      natural_entry_sc [of e sc] random_entry_sc [of e sc])

lemma decode_loop_sc:
  assumes body: "\<And>e sc. body e sc = (case body e [] of (r, new) \<Rightarrow> (r, sc @ new))"
  shows "decode_loop body es sc = (case decode_loop body es [] of (r, new) \<Rightarrow> (r, sc @ new))"
proof (induction es arbitrary: sc)
  case Nil
  show ?case by simp
next
  case (Cons e es)
  obtain r new where b0: "body e [] = (r, new)"
    by (cases "body e []")
  have b: "body e sc = (r, sc @ new)"
    using body [of e sc] b0 by simp
  obtain r2 new2 where d0: "decode_loop body es [] = (r2, new2)"
    by (cases "decode_loop body es []")
  have d1: "decode_loop body es (sc @ new) = (r2, sc @ new @ new2)"
    using Cons.IH [of "sc @ new"] d0 by simp
  have d2: "decode_loop body es new = (r2, new @ new2)"
    using Cons.IH [of new] d0 by simp
  show ?case
    by (simp add: b b0 d1 d2 split: sum.split)
qed

lemma entry_loop_sc:
  "decode_loop (entry_of lt) es sc =
     (case decode_loop (entry_of lt) es [] of (r, new) \<Rightarrow> (r, sc @ new))"
  by (rule decode_loop_sc) (rule entry_of_sc)

lemma setup_sc:
  "setup_lighting_from_metadata md sc =
     (case setup_lighting_from_metadata md [] of (r, new) \<Rightarrow> (r, sc @ new))"
  by (simp add: setup_lighting_from_metadata_def Let_def entry_loop_sc [where sc = sc]
      split: option.split sum.split)

lemma decode_loop_returns:
  assumes body: "\<And>e sc l sc'. body e sc = (Inr (Some l), sc') \<Longrightarrow> sc' = sc @ [l]"
    and skip: "\<And>e sc sc'. body e sc = (Inr None, sc') \<Longrightarrow> sc' = sc"
  shows "decode_loop body es sc = (Inr ls, sc') \<Longrightarrow> sc' = sc @ ls"
proof (induction es arbitrary: sc ls)
  case Nil
  then show ?case by simp
next
  case (Cons e es)
  obtain r s1 where b: "body e sc = (Inr r, s1)"
    using Cons.prems by (cases "body e sc") (auto split: sum.splits)
  obtain ls2 where d: "decode_loop body es s1 = (Inr ls2, sc')"
    and ls: "ls = (case r of None \<Rightarrow> ls2 | Some l \<Rightarrow> l # ls2)"
    using Cons.prems b by (cases "decode_loop body es s1") (auto split: sum.splits)
  have s2: "sc' = s1 @ ls2"
    using Cons.IH [OF d] .
  show ?case
  proof (cases r)
    case None
    with b skip have "s1 = sc" by blast
    with s2 ls None show ?thesis by simp
  next
    case (Some l)
    with b body have "s1 = sc @ [l]" by blast
    with s2 ls Some show ?thesis by simp
  qed
qed

lemma lift_light_eq_Some: "lift_light p = (Inr (Some l), sc') \<longleftrightarrow> p = (Inr l, sc')"
  by (cases p; cases "fst p") (auto simp: lift_light_def)

lemma lift_light_ne_None [simp]: "lift_light p \<noteq> (Inr None, sc')"
  by (cases p; cases "fst p") (auto simp: lift_light_def)

lemma add_area_light_Inr:
  "add_area_light loc rot en col sz shp sc = (Inr l, sc') \<Longrightarrow>
     sc' = sc @ [l] \<and> as_vec3 col = Inr (color (data l))"
  by (auto simp: add_area_light_def bindE_def new_object_def split: sum.splits if_splits)

lemma add_sun_light_Inr:
  "add_sun_light rot en col ang sc = (Inr l, sc') \<Longrightarrow>
     sc' = sc @ [l] \<and> as_vec3 col = Inr (color (data l))"
  by (auto simp: add_sun_light_def bindE_def new_object_def split: sum.splits if_splits)

lemma add_point_light_Inr:
  "add_point_light loc en col sz sc = (Inr l, sc') \<Longrightarrow>
     sc' = sc @ [l] \<and> as_vec3 col = Inr (color (data l))"
  by (auto simp: add_point_light_def bindE_def new_object_def split: sum.splits if_splits)

lemma area_from_info_Some:
  assumes "area_from_info e w sc = (Inr (Some l), sc')"
  shows "sc' = sc @ [l] \<and>
     (\<exists>t. py_getitem e ''color_temperature'' = Inr (JNum t) \<and> color (data l) = blackbody_to_rgb t)"
  using assms unfolding area_from_info_def area_args_def color_from_temperature_def
  by (auto simp: bindE_def lift_light_eq_Some as_float_eq_Inr
      split: sum.splits if_splits dest!: add_area_light_Inr)

lemma sun_from_info_Some:
  assumes "sun_from_info e sc = (Inr (Some l), sc')"
  shows "sc' = sc @ [l] \<and>
     (\<exists>t. py_getitem e ''color_temperature'' = Inr (JNum t) \<and> color (data l) = blackbody_to_rgb t)"
  using assms unfolding sun_from_info_def sun_args_def color_from_temperature_def
  by (auto simp: bindE_def lift_light_eq_Some as_float_eq_Inr
      split: sum.splits if_splits dest!: add_sun_light_Inr)

lemma point_from_info_Some:
  assumes "point_from_info e sc = (Inr (Some l), sc')"
  shows "sc' = sc @ [l] \<and>
     (\<exists>cs xs. py_getitem e ''color'' = Inr cs \<and> py_iter cs = Inr xs \<and> as_vec3 xs = Inr (color (data l)))"
  using assms unfolding point_from_info_def point_args_def
  by (auto simp: bindE_def lift_light_eq_Some
      split: sum.splits if_splits dest!: add_point_light_Inr)

lemma area_from_info_None: "area_from_info e w sc \<noteq> (Inr None, sc')"
  unfolding area_from_info_def by (auto split: sum.splits)

lemma sun_from_info_None: "sun_from_info e sc \<noteq> (Inr None, sc')"
  unfolding sun_from_info_def by (auto split: sum.splits)

lemma point_from_info_None: "point_from_info e sc \<noteq> (Inr None, sc')"
  unfolding point_from_info_def by (auto split: sum.splits)

lemma entry_of_cases:
  assumes "entry_of lt e sc = (Inr r, sc')"
  shows "(r = None \<and> sc' = sc) \<or>
     (lt \<in> {JStr ''studio'', JStr ''dramatic''} \<and> area_from_info e True sc = (Inr r, sc')) \<or>
     (lt = JStr ''natural'' \<and> (sun_from_info e sc = (Inr r, sc') \<or> area_from_info e False sc = (Inr r, sc'))) \<or>
     (lt \<notin> {JStr ''studio'', JStr ''dramatic'', JStr ''natural''} \<and> point_from_info e sc = (Inr r, sc'))"
  using assms
  by (auto simp: entry_of_def studio_entry_def dramatic_entry_def natural_entry_def random_entry_def
      split: if_splits sum.splits bool.splits)

lemma entry_of_Some_scene: "entry_of lt e sc = (Inr (Some l), sc') \<Longrightarrow> sc' = sc @ [l]"
  using entry_of_cases [of lt e sc "Some l" sc']
  by (auto dest: area_from_info_Some sun_from_info_Some point_from_info_Some)

lemma entry_of_None_scene: "entry_of lt e sc = (Inr None, sc') \<Longrightarrow> sc' = sc"
  using entry_of_cases [of lt e sc None sc']
  by (auto simp: area_from_info_None sun_from_info_None point_from_info_None)

lemma entry_loop_returns:
  assumes "decode_loop (entry_of lt) es sc = (Inr ls, sc')"
  shows "sc' = sc @ ls"
  by (rule decode_loop_returns [where body = "entry_of lt", OF entry_of_Some_scene entry_of_None_scene assms])

lemma setup_returns:
  "setup_lighting_from_metadata md sc = (Inr ls, sc') \<Longrightarrow> sc' = sc @ ls"
  by (auto simp: setup_lighting_from_metadata_def Let_def
      split: option.splits sum.splits if_splits dest: entry_loop_returns)

text \<open>
  C3 (amended). The source of the colour is decided by the archetype, not by the presence
  of the field: every light reconstructed in the studio, dramatic and natural branches has
  the colour the colour-temperature model gives for the stored \<^verbatim>\<open>color_temperature\<close>,
  and every light reconstructed in the random branch has the stored \<^verbatim>\<open>color\<close>.
\<close>

theorem color_source_by_archetype:
  assumes "entry_of lt e sc = (Inr (Some l), sc')"
  shows "if lt \<in> {JStr ''studio'', JStr ''dramatic'', JStr ''natural''}
     then \<exists>t. py_getitem e ''color_temperature'' = Inr (JNum t) \<and> color (data l) = blackbody_to_rgb t
     else \<exists>cs xs. py_getitem e ''color'' = Inr cs \<and> py_iter cs = Inr xs \<and>
            as_vec3 xs = Inr (color (data l))"
  using entry_of_cases [OF assms]
  by (auto dest: area_from_info_Some sun_from_info_Some point_from_info_Some)

lemmas eval_defs =
  setup_lighting_from_metadata_def valid_types_def entry_of_def studio_entry_def dramatic_entry_def
  natural_entry_def random_entry_def must_include_def area_from_info_def area_args_def
  sun_from_info_def sun_args_def point_from_info_def point_args_def color_from_temperature_def
  add_area_light_def add_sun_light_def add_point_light_def py_index_def new_object_def
  blackbody_to_rgb_def tuple3_def sample_area_info_def sample_area_light_def

text \<open>
  C3 (as stated, refuted). A studio entry that stores the colour (0, 0, 0) next to the
  temperature 2700 K is reconstructed with the colour of 2700 K, (1.0, 0.7, 0.4): the
  stored \<^verbatim>\<open>color\<close> is present and is not used.
\<close>

theorem stored_color_ignored_counterexample:
  "fst (setup_lighting_from_metadata
     [(''lighting_type'', JStr ''studio''),
      (''lights'', JList [sample_area_info ''key'' [(''color'', JList [JNum 0, JNum 0, JNum 0])]])] [])
   = Inr [\<lparr>data = AREA 1000 (1, 0.7, 0.4) RECTANGLE 2 (Some 1), location = (4, - 4, 4),
           rotation_euler = (0, 0, 0)\<rparr>]"
  by (simp add: eval_defs)

text \<open>C3, witness: the sample key light of a studio record.\<close>

theorem color_source_by_archetype_witness:
  "color (data sample_area_light) = blackbody_to_rgb 2700"
  using color_source_by_archetype [of "JStr ''studio''" "sample_area_info ''key'' []" "[]"
      sample_area_light "[sample_area_light]"]
  by (simp add: eval_defs)

text \<open>
  C4 (amended). Reconstruction raises \<^verbatim>\<open>ValueError\<close> when \<^verbatim>\<open>lighting_type\<close> is absent
  (or \<^verbatim>\<open>None\<close>), \<^verbatim>\<open>ValueError\<close> again when it is not one of the five valid values, and
  \<^verbatim>\<open>KeyError\<close> when the archetype is not \<^verbatim>\<open>env_map\<close> and \<^verbatim>\<open>lights\<close> is absent; the
  first two differ in their message only. In all three cases the scene is unchanged.
\<close>

theorem validation_errors:
  "(map_of md ''lighting_type'' = None \<or> map_of md ''lighting_type'' = Some JNone \<longrightarrow>
      setup_lighting_from_metadata md sc = (Inl (Raise ValueError Must_include_lighting_type), sc)) \<and>
   (\<forall>v. map_of md ''lighting_type'' = Some v \<and> v \<noteq> JNone \<and> v \<notin> set valid_types \<longrightarrow>
      setup_lighting_from_metadata md sc = (Inl (Raise ValueError (Invalid_lighting_type v)), sc)) \<and>
   (\<forall>v. map_of md ''lighting_type'' = Some v \<and> v \<in> set valid_types \<and> v \<noteq> JStr ''env_map'' \<and>
        map_of md ''lights'' = None \<longrightarrow>
      setup_lighting_from_metadata md sc = (Inl (Raise KeyError (Must_include_lights v)), sc))"
  by (auto simp: setup_lighting_from_metadata_def Let_def valid_types_def)

text \<open>C4, witness: the empty record, a record with a bogus type, a studio record without lights.\<close>

theorem validation_errors_witness:
  "setup_lighting_from_metadata [] [] = (Inl (Raise ValueError Must_include_lighting_type), []) \<and>
   setup_lighting_from_metadata [(''lighting_type'', JStr ''bogus'')] [] =
     (Inl (Raise ValueError (Invalid_lighting_type (JStr ''bogus''))), []) \<and>
   setup_lighting_from_metadata [(''lighting_type'', JStr ''studio'')] [] =
     (Inl (Raise KeyError (Must_include_lights (JStr ''studio''))), [])"
  using validation_errors [of "[]" "[]"]
    validation_errors [of "[(''lighting_type'', JStr ''bogus'')]" "[]"]
    validation_errors [of "[(''lighting_type'', JStr ''studio'')]" "[]"]
  by (simp add: valid_types_def)

text \<open>
  C4 (as stated, refuted). The error for an absent \<^verbatim>\<open>lighting_type\<close> has the class of
  the error for an invalid one, and not the class of the error for absent \<^verbatim>\<open>lights\<close>:
  the classes do not separate a missing field from an invalid value.
\<close>

theorem error_kinds_counterexample:
  "class_of (projl (fst (setup_lighting_from_metadata [] []))) =
   class_of (projl (fst (setup_lighting_from_metadata [(''lighting_type'', JStr ''bogus'')] []))) \<and>
   class_of (projl (fst (setup_lighting_from_metadata [] []))) \<noteq>
   class_of (projl (fst (setup_lighting_from_metadata [(''lighting_type'', JStr ''studio'')] []))) \<and>
   isl (fst (setup_lighting_from_metadata [] [])) \<and>
   isl (fst (setup_lighting_from_metadata [(''lighting_type'', JStr ''bogus'')] [])) \<and>
   isl (fst (setup_lighting_from_metadata [(''lighting_type'', JStr ''studio'')] []))"
  by (simp add: setup_lighting_from_metadata_def Let_def valid_types_def)

text \<open>
  C6 (as stated, refuted). A studio record whose first entry is complete and whose second
  entry has no role fails with \<^verbatim>\<open>KeyError\<close>, and the light of the first entry is in the
  scene afterwards.
\<close>

theorem partial_scene_counterexample:
  "setup_lighting_from_metadata
     [(''lighting_type'', JStr ''studio''),
      (''lights'', JList [sample_area_info ''key'' [], JDict []])] []
   = (Inl (Raise KeyError (Light_must_include ''Studio'' ''role'')), [sample_area_light])"
  by (simp add: eval_defs)

lemma decode_loop_append:
  "decode_loop body (xs @ ys) sc =
     (case decode_loop body xs sc of
        (Inl e, sc') \<Rightarrow> (Inl e, sc')
      | (Inr ls, sc') \<Rightarrow>
          (case decode_loop body ys sc' of
             (Inl e, sc'') \<Rightarrow> (Inl e, sc'')
           | (Inr ls', sc'') \<Rightarrow> (Inr (ls @ ls'), sc'')))"
  by (induction xs arbitrary: sc) (auto split: prod.splits sum.splits option.splits)

lemma entry_missing_discriminant:
  "map_of kvs (discriminant lt) = None \<Longrightarrow>
   entry_of lt (JDict kvs) sc = (Inl (must_include (archetype_name lt) (discriminant lt)), sc)"
  by (auto simp: entry_of_def discriminant_def archetype_name_def studio_entry_def
      dramatic_entry_def natural_entry_def random_entry_def split: if_splits)

lemma entry_unrecognized:
  "map_of kvs (discriminant lt) = Some d \<Longrightarrow> d \<notin> set (recognized lt) \<Longrightarrow>
   entry_of lt (JDict kvs) sc = (Inr None, sc)"
  by (auto simp: entry_of_def discriminant_def recognized_def studio_entry_def
      dramatic_entry_def natural_entry_def random_entry_def split: if_splits)


lemma setup_eq_loop:
  "map_of md ''lighting_type'' = Some lt \<Longrightarrow> lt \<in> set valid_types \<Longrightarrow> lt \<noteq> JStr ''env_map'' \<Longrightarrow>
   map_of md ''lights'' = Some (JList es) \<Longrightarrow>
   setup_lighting_from_metadata md sc = decode_loop (entry_of lt) es sc"
  by (auto simp: setup_lighting_from_metadata_def Let_def valid_types_def)

lemma loop_fails_at:
  "body e sc1 = (Inl err, sc2) \<Longrightarrow> decode_loop body pre sc = (Inr ls, sc1) \<Longrightarrow>
   decode_loop body (pre @ e # post) sc = (Inl err, sc2)"
  by (simp add: decode_loop_append)

lemma loop_fails:
  "(\<And>s. isl (fst (body e s))) \<Longrightarrow> isl (fst (decode_loop body (pre @ e # post) sc))"
proof -
  assume f: "\<And>s. isl (fst (body e s))"
  obtain r s1 where p: "decode_loop body pre sc = (r, s1)"
    by (cases "decode_loop body pre sc")
  obtain r2 s2 where b: "body e s1 = (r2, s2)"
    by (cases "body e s1")
  from f [of s1] b obtain err where "r2 = Inl err"
    by (cases r2) auto
  with p b show ?thesis
    by (cases r) (simp_all add: decode_loop_append)
qed

lemma loop_skips:
  "(\<And>s. body e s = (Inr None, s)) \<Longrightarrow>
   decode_loop body (pre @ e # post) sc = decode_loop body (pre @ post) sc"
  by (simp add: decode_loop_append split: prod.splits sum.splits)

text \<open>
  C6 (amended). A failed reconstruction returns no light list, and the scene is not rolled
  back. Every call only appends to the scene; a successful call appends exactly the lights
  it returns; a call on a record without \<^verbatim>\<open>lights\<close>, or whose \<^verbatim>\<open>lighting_type\<close> is absent
  or invalid, leaves the scene as it was. When the entries before an entry are processed
  without error and that entry fails, the call fails with the error of that entry, and the
  scene afterwards starts with the scene before the call followed by every light created
  for the earlier entries.
\<close>

theorem scene_after_reconstruction:
  "(\<exists>new. snd (setup_lighting_from_metadata md sc) = sc @ new \<and>
      (\<forall>ls. fst (setup_lighting_from_metadata md sc) = Inr ls \<longrightarrow> new = ls)) \<and>
   (map_of md ''lights'' = None \<or> map_of md ''lighting_type'' \<notin> Some ` set valid_types \<longrightarrow>
      snd (setup_lighting_from_metadata md sc) = sc) \<and>
   (map_of md ''lighting_type'' = Some lt \<and> lt \<in> set valid_types \<and> lt \<noteq> JStr ''env_map'' \<and>
    map_of md ''lights'' = Some (JList (pre @ e # post)) \<and>
    decode_loop (entry_of lt) pre sc = (Inr created, mid) \<and>
    entry_of lt e mid = (Inl err, after) \<longrightarrow>
      fst (setup_lighting_from_metadata md sc) = Inl err \<and>
      (\<exists>extra. snd (setup_lighting_from_metadata md sc) = sc @ created @ extra))"
proof -
  obtain r sc' where S: "setup_lighting_from_metadata md sc = (r, sc')"
    by (cases "setup_lighting_from_metadata md sc")
  have grow: "sc' = sc @ snd (setup_lighting_from_metadata md [])"
    using setup_sc [of md sc] S by (simp split: prod.splits)
  have ret: "snd (setup_lighting_from_metadata md []) = ls" if "r = Inr ls" for ls
    using setup_returns [of md sc ls sc'] S that grow by simp
  have unchanged: "sc' = sc"
    if "map_of md ''lights'' = None \<or> map_of md ''lighting_type'' \<notin> Some ` set valid_types"
    using that S
    by (auto simp: setup_lighting_from_metadata_def Let_def image_iff split: option.splits if_splits)
  have first: "\<exists>new. snd (setup_lighting_from_metadata md sc) = sc @ new \<and>
      (\<forall>ls. fst (setup_lighting_from_metadata md sc) = Inr ls \<longrightarrow> new = ls)"
    using S grow ret by auto
  have second: "snd (setup_lighting_from_metadata md sc) = sc"
    if "map_of md ''lights'' = None \<or> map_of md ''lighting_type'' \<notin> Some ` set valid_types"
    using unchanged [OF that] S by simp
  have third: "fst (setup_lighting_from_metadata md sc) = Inl err \<and>
      (\<exists>extra. snd (setup_lighting_from_metadata md sc) = sc @ created @ extra)"
    if h: "map_of md ''lighting_type'' = Some lt" "lt \<in> set valid_types" "lt \<noteq> JStr ''env_map''"
      "map_of md ''lights'' = Some (JList (pre @ e # post))"
      and pre: "decode_loop (entry_of lt) pre sc = (Inr created, mid)"
      and fail: "entry_of lt e mid = (Inl err, after)"
  proof -
    have "setup_lighting_from_metadata md sc = decode_loop (entry_of lt) (pre @ e # post) sc"
      by (rule setup_eq_loop [OF h])
    also have "\<dots> = (Inl err, after)"
      by (rule loop_fails_at [OF fail pre])
    finally have R: "setup_lighting_from_metadata md sc = (Inl err, after)" .
    have m: "mid = sc @ created"
      by (rule entry_loop_returns [OF pre])
    have "after = mid @ snd (entry_of lt e [])"
      using entry_of_sc [of lt e mid] fail by (simp split: prod.splits)
    with m R show ?thesis
      by simp
  qed
  show ?thesis
    using first second third by blast
qed

text \<open>
  C6, witness: a dramatic record whose first entry is complete and whose second entry has
  no position, in a scene that already holds a light: the call fails with the
  \<^verbatim>\<open>KeyError\<close> of \<^verbatim>\<open>position\<close>, and the light of the first entry stays behind the one
  that was there.
\<close>

theorem scene_after_reconstruction_witness:
  "fst (setup_lighting_from_metadata
     [(''lighting_type'', JStr ''dramatic''),
      (''lights'', JList [sample_area_info ''dramatic_1'' [], JDict [(''type'', JStr ''area'')]])]
     [sample_area_light]) = Inl (Raise KeyError (Missing_key ''position'')) \<and>
   (\<exists>extra. snd (setup_lighting_from_metadata
     [(''lighting_type'', JStr ''dramatic''),
      (''lights'', JList [sample_area_info ''dramatic_1'' [], JDict [(''type'', JStr ''area'')]])]
     [sample_area_light]) = [sample_area_light] @ [sample_area_light] @ extra)"
  using scene_after_reconstruction [where md = "[(''lighting_type'', JStr ''dramatic''),
        (''lights'', JList [sample_area_info ''dramatic_1'' [], JDict [(''type'', JStr ''area'')]])]"
      and sc = "[sample_area_light]" and lt = "JStr ''dramatic''"
      and pre = "[sample_area_info ''dramatic_1'' []]" and e = "JDict [(''type'', JStr ''area'')]"
      and post = "[]" and created = "[sample_area_light]"
      and mid = "[sample_area_light, sample_area_light]"
      and err = "Raise KeyError (Missing_key ''position'')"
      and after = "[sample_area_light, sample_area_light]"]
  by (simp add: eval_defs)

text \<open>
  C5. In a record of an archetype other than \<^verbatim>\<open>env_map\<close>, an entry (a dictionary)
  without the discriminant key makes the reconstruction fail, with the \<^verbatim>\<open>KeyError\<close>
  "... light metadata must include ..." when the entries before it are processed without
  error; an entry whose discriminant has an unrecognised value is skipped: the result,
  scene included, is that of the record without the entry. A studio record of three
  entries, the second with role "unknown", gives exactly two lights.
\<close>

theorem permissive_skip:
  assumes "map_of md ''lighting_type'' = Some lt" and "lt \<in> set valid_types"
    and "lt \<noteq> JStr ''env_map''"
    and "map_of md ''lights'' = Some (JList (pre @ JDict kvs # post))"
    and "map_of md' ''lighting_type'' = Some lt"
    and "map_of md' ''lights'' = Some (JList (pre @ post))"
  shows "(map_of kvs (discriminant lt) = None \<longrightarrow>
            isl (fst (setup_lighting_from_metadata md sc))) \<and>
         (\<forall>ls sc'. map_of kvs (discriminant lt) = None \<and>
            decode_loop (entry_of lt) pre sc = (Inr ls, sc') \<longrightarrow>
            setup_lighting_from_metadata md sc =
              (Inl (Raise KeyError (Light_must_include (archetype_name lt) (discriminant lt))), sc')) \<and>
         ((\<exists>d. map_of kvs (discriminant lt) = Some d \<and> d \<notin> set (recognized lt)) \<longrightarrow>
            setup_lighting_from_metadata md sc = setup_lighting_from_metadata md' sc) \<and>
         (case fst (setup_lighting_from_metadata
                 [(''lighting_type'', JStr ''studio''),
                  (''lights'', JList [sample_area_info ''key'' [], sample_area_info ''unknown'' [],
                                      sample_area_info ''back'' []])] sc) of
            Inl e \<Rightarrow> False
          | Inr lights \<Rightarrow> length lights = 2)"
proof -
  have S: "setup_lighting_from_metadata md sc = decode_loop (entry_of lt) (pre @ JDict kvs # post) sc"
    using assms by (simp add: setup_eq_loop)
  have S': "setup_lighting_from_metadata md' sc = decode_loop (entry_of lt) (pre @ post) sc"
    using assms by (simp add: setup_eq_loop)
  have a: "isl (fst (setup_lighting_from_metadata md sc))" if "map_of kvs (discriminant lt) = None"
    unfolding S by (rule loop_fails) (simp add: entry_missing_discriminant [OF that])
  have b: "setup_lighting_from_metadata md sc =
      (Inl (Raise KeyError (Light_must_include (archetype_name lt) (discriminant lt))), sc')"
    if "map_of kvs (discriminant lt) = None" "decode_loop (entry_of lt) pre sc = (Inr ls, sc')"
    for ls sc'
    unfolding S
    by (rule loop_fails_at [OF _ that(2)])
      (simp add: entry_missing_discriminant [OF that(1)] must_include_def)
  have c: "setup_lighting_from_metadata md sc = setup_lighting_from_metadata md' sc"
    if "map_of kvs (discriminant lt) = Some d" "d \<notin> set (recognized lt)" for d
    unfolding S S' by (rule loop_skips) (simp add: entry_unrecognized [OF that])
  have d: "(case fst (setup_lighting_from_metadata
                 [(''lighting_type'', JStr ''studio''),
                  (''lights'', JList [sample_area_info ''key'' [], sample_area_info ''unknown'' [],
                                      sample_area_info ''back'' []])] sc) of
            Inl e \<Rightarrow> False
          | Inr lights \<Rightarrow> length lights = 2)"
    by (simp add: eval_defs)
  show ?thesis
    using a b c d by blast
qed

text \<open>C5, witness: studio records with an entry without role, and with an unknown role.\<close>

theorem permissive_skip_witness:
  "isl (fst (setup_lighting_from_metadata
      [(''lighting_type'', JStr ''studio''), (''lights'', JList [JDict []])] [])) \<and>
   setup_lighting_from_metadata
      [(''lighting_type'', JStr ''studio''),
       (''lights'', JList [JDict [(''role'', JStr ''unknown'')]])] [] =
   setup_lighting_from_metadata
      [(''lighting_type'', JStr ''studio''), (''lights'', JList [])] []"
  using permissive_skip [where md = "[(''lighting_type'', JStr ''studio''), (''lights'', JList [JDict []])]"
      and lt = "JStr ''studio''" and pre = "[]" and kvs = "[]" and post = "[]"
      and md' = "[(''lighting_type'', JStr ''studio''), (''lights'', JList [])]" and sc = "[]"]
    permissive_skip [where md = "[(''lighting_type'', JStr ''studio''),
        (''lights'', JList [JDict [(''role'', JStr ''unknown'')]])]"
      and lt = "JStr ''studio''" and pre = "[]" and kvs = "[(''role'', JStr ''unknown'')]"
      and post = "[]"
      and md' = "[(''lighting_type'', JStr ''studio''), (''lights'', JList [])]" and sc = "[]"]
  by (simp add: valid_types_def discriminant_def recognized_def)





















section \<open>Round trip\<close>

lemma add_area_light_ok:
  assumes "as_vec3 loc = Inr l" and "as_vec3 rot = Inr r" and "as_vec3 col = Inr c"
  shows "add_area_light loc rot (JNum en) col [JNum w, JNum h] RECTANGLE sc =
     (Inr \<lparr>data = AREA en c RECTANGLE w (Some h), location = l, rotation_euler = r\<rparr>,
      sc @ [\<lparr>data = AREA en c RECTANGLE w (Some h), location = l, rotation_euler = r\<rparr>])"
  using assms by (simp add: add_area_light_def py_index_def new_object_def)

lemma add_sun_light_ok:
  assumes "as_vec3 rot = Inr r" and "as_vec3 col = Inr c"
  shows "add_sun_light rot (JNum en) col (JNum a) sc =
     (Inr \<lparr>data = SUN en c a, location = (0, 0, 0), rotation_euler = r\<rparr>,
      sc @ [\<lparr>data = SUN en c a, location = (0, 0, 0), rotation_euler = r\<rparr>])"
  using assms by (simp add: add_sun_light_def new_object_def)

lemma add_point_light_ok:
  assumes "as_vec3 loc = Inr l" and "as_vec3 col = Inr c"
  shows "add_point_light loc (JNum en) col (JNum s) sc =
     (Inr \<lparr>data = POINT en c s, location = l, rotation_euler = (0, 0, 0)\<rparr>,
      sc @ [\<lparr>data = POINT en c s, location = l, rotation_euler = (0, 0, 0)\<rparr>])"
  using assms by (simp add: add_point_light_def new_object_def)

lemma radians_0 [simp]: "radians 0 = 0"
  by (simp add: radians_def)

lemma py_iter_tuple_getitem [simp]: "bindE (Inr (JList xs)) py_iter = Inr xs"
  by simp

lemmas replay_defs =
  setup_lighting_from_metadata_def valid_types_def entry_of_def studio_entry_def dramatic_entry_def
  natural_entry_def random_entry_def area_from_info_def area_args_def sun_from_info_def
  sun_args_def point_from_info_def point_args_def color_from_temperature_def

lemma studio_replays:
  assumes "generate_studio sc g = (Inr (lights, md), sc', g')"
  shows "setup_lighting_from_metadata md sc = (Inr lights, sc')"
  using assms
  by (auto simp: generate_studio_def setup_studio_lighting_def Let_def add_area_light_ok
      replay_defs split: prod.splits)

lemma natural_replays:
  assumes "generate_natural sc g = (Inr (lights, md), sc', g')"
  shows "setup_lighting_from_metadata md sc = (Inr lights, sc')"
  using assms
  by (auto simp: generate_natural_def Let_def add_area_light_ok add_sun_light_ok
      replay_defs split: prod.splits)

lemma env_map_replays:
  assumes "generate_env_map sc g = (Inr (lights, md), sc', g')"
  shows "setup_lighting_from_metadata md sc = (Inr lights, sc')"
  using assms
  by (auto simp: generate_env_map_def Let_def replay_defs split: prod.splits)

lemma dramatic_light_replays:
  assumes "dramatic_light i sc g = (Inr (l, info), sc', g')"
  shows "dramatic_entry info sc = (Inr (Some l), sc')"
  using assms
  by (auto simp: dramatic_light_def Let_def add_area_light_ok replay_defs split: prod.splits)

lemma random_light_replays:
  assumes "random_light i sc g = (Inr (l, info), sc', g')"
  shows "random_entry info sc = (Inr (Some l), sc')"
  using assms
  by (auto simp: random_light_def Let_def add_point_light_ok replay_defs split: prod.splits)

lemma gen_loop_replays:
  assumes body: "\<And>i sc g l info sc' g'.
      body i sc g = (Inr (l, info), sc', g') \<Longrightarrow> entry info sc = (Inr (Some l), sc')"
  shows "gen_loop body i n sc g = (Inr (lights, infos), sc', g') \<Longrightarrow>
     decode_loop entry infos sc = (Inr lights, sc')"
proof (induction n arbitrary: i sc g lights infos)
  case 0
  then show ?case by simp
next
  case (Suc n)
  from Suc.prems obtain l info s1 g1 where b: "body i sc g = (Inr (l, info), s1, g1)"
    by (cases "body i sc g") (auto split: sum.splits prod.splits)
  from Suc.prems b obtain ls rest where
    r: "gen_loop body (Suc i) n s1 g1 = (Inr (ls, rest), sc', g')"
    and eq: "lights = l # ls" "infos = info # rest"
    by (cases "gen_loop body (Suc i) n s1 g1") (auto split: sum.splits prod.splits)
  have "decode_loop entry rest s1 = (Inr ls, sc')"
    by (rule Suc.IH [OF r])
  with body [OF b] eq show ?case by simp
qed

lemma generate_loop_replays:
  assumes body: "\<And>i sc g l info sc' g'.
      body i sc g = (Inr (l, info), sc', g') \<Longrightarrow> entry_of (JStr lt) info sc = (Inr (Some l), sc')"
    and lt: "JStr lt \<in> set valid_types" "lt \<noteq> ''env_map''"
    and gen: "generate_loop lt body num sc g = (Inr (lights, md), sc', g')"
  shows "setup_lighting_from_metadata md sc = (Inr lights, sc')"
proof -
  from gen obtain infos where
    g: "gen_loop body 0 (nat num) sc g = (Inr (lights, infos), sc', g')"
    and md: "md = [(''lighting_type'', JStr lt), (''lights'', JList infos)]"
    by (cases "gen_loop body 0 (nat num) sc g")
      (auto simp: generate_loop_def split: sum.splits prod.splits)
  have "decode_loop (entry_of (JStr lt)) infos sc = (Inr lights, sc')"
    by (rule gen_loop_replays [OF body g])
  with lt show ?thesis
    by (simp add: md setup_lighting_from_metadata_def Let_def)
qed

lemma dramatic_replays:
  assumes "generate_dramatic sc g = (Inr (lights, md), sc', g')"
  shows "setup_lighting_from_metadata md sc = (Inr lights, sc')"
proof -
  obtain num g1 where "randint 1 2 g = (num, g1)"
    by (cases "randint 1 2 g")
  with assms have "generate_loop ''dramatic'' dramatic_light num sc g1 = (Inr (lights, md), sc', g')"
    by (simp add: generate_dramatic_def)
  then show ?thesis
    by (rule generate_loop_replays [rotated 3])
      (simp_all add: entry_of_def valid_types_def dramatic_light_replays)
qed

lemma random_replays:
  assumes "generate_random ''random'' sc g = (Inr (lights, md), sc', g')"
  shows "setup_lighting_from_metadata md sc = (Inr lights, sc')"
proof -
  obtain num g1 where "randint 2 5 g = (num, g1)"
    by (cases "randint 2 5 g")
  with assms have "generate_loop ''random'' random_light num sc g1 = (Inr (lights, md), sc', g')"
    by (simp add: generate_random_def)
  then show ?thesis
    by (rule generate_loop_replays [rotated 3])
      (simp_all add: entry_of_def valid_types_def random_light_replays)
qed

lemma generate_for_replays:
  assumes "generate_for lt sc g = (Inr (lights, md), sc', g')"
    and "lt \<in> set (map fst lighting_types)"
  shows "setup_lighting_from_metadata md sc = (Inr lights, sc')"
proof -
  from assms(2) consider "lt = ''env_map''" | "lt = ''studio''" | "lt = ''dramatic''"
    | "lt = ''natural''" | "lt = ''random''"
    by (auto simp: lighting_types_def)
  then show ?thesis
  proof cases
    case 1
    with assms(1) show ?thesis by (simp add: generate_for_def env_map_replays)
  next
    case 2
    with assms(1) show ?thesis by (simp add: generate_for_def studio_replays)
  next
    case 3
    with assms(1) show ?thesis by (simp add: generate_for_def dramatic_replays)
  next
    case 4
    with assms(1) show ?thesis by (simp add: generate_for_def natural_replays)
  next
    case 5
    with assms(1) show ?thesis by (simp add: generate_for_def random_replays)
  qed
qed

lemma choices_mem:
  assumes "population \<noteq> []"
  shows "fst (choices population weights g) \<in> set population"
proof -
  have L: "length (takeWhile P (take (length population - 1) cum)) < length population"
    for P and cum :: "real list"
  proof -
    have "length (takeWhile P (take (length population - 1) cum))
        \<le> length (take (length population - 1) cum)"
      by (rule length_takeWhile_le)
    also have "\<dots> \<le> length population - 1"
      by simp
    also have "\<dots> < length population"
      using assms by (cases population) simp_all
    finally show ?thesis .
  qed
  show ?thesis
    unfolding choices_def py_random_def Let_def prod.case fst_conv
    by (rule nth_mem) (rule L)
qed

lemma generate_replays:
  assumes "generate_random_lighting_setup lighting_type sc g = (Inr (lights, md), sc', g')"
  shows "setup_lighting_from_metadata md sc = (Inr lights, sc')"
proof (cases lighting_type)
  case None
  obtain lt g1 where c: "choices (map fst lighting_types) (map snd lighting_types) g = (lt, g1)"
    by (cases "choices (map fst lighting_types) (map snd lighting_types) g")
  have "lt \<in> set (map fst lighting_types)"
    using choices_mem [of "map fst lighting_types" "map snd lighting_types" g] c
    by (simp add: lighting_types_def)
  moreover have "generate_for lt sc g1 = (Inr (lights, md), sc', g')"
    using assms None c by (simp add: generate_random_lighting_setup_def)
  ultimately show ?thesis
    by (rule generate_for_replays [rotated])
next
  case (Some lt)
  with assms have "lt \<in> set (map fst lighting_types)"
    and "generate_for lt sc g = (Inr (lights, md), sc', g')"
    by (auto simp: generate_random_lighting_setup_def split: if_splits)
  then show ?thesis
    by (rule generate_for_replays [rotated])
qed

text \<open>
  C1 (amended). For every setup the generator returns, whatever the archetype (forced or
  drawn), the random source and the scene, reconstructing from the emitted metadata in
  the scene the generator started from creates the same lights, equal in every property
  (kind, location, rotation, energy, colour, size, shape, angle), and leaves the same
  scene. The source has no function that encodes lights back into a record.
\<close>

theorem generated_metadata_replays:
  assumes "generate_random_lighting_setup lighting_type sc g = (Inr (lights, md), sc', g')"
  shows "setup_lighting_from_metadata md sc = (Inr lights, sc')"
  using assms by (rule generate_replays)

text \<open>
  C1 (as stated, refuted). Two environment-only setups, drawn with 0 and with 1/2, emit
  different records (strength 0.8 and 1.15), and reconstruction returns the same result
  for both: what is reconstructed does not determine the record, so no re-encoding of it
  can give back each record byte for byte.
\<close>

theorem no_reencoding_counterexample:
  "fst (generate_random_lighting_setup (Some ''env_map'') [] (\<lambda>n. 0)) =
     Inr ([], [(''lighting_type'', JStr ''env_map''), (''lights'', JList []),
               (''env_map'', JDict [(''strength'', JNum 0.8)])]) \<and>
   fst (generate_random_lighting_setup (Some ''env_map'') [] (\<lambda>n. 1 / 2)) =
     Inr ([], [(''lighting_type'', JStr ''env_map''), (''lights'', JList []),
               (''env_map'', JDict [(''strength'', JNum 1.15)])]) \<and>
   setup_lighting_from_metadata
     [(''lighting_type'', JStr ''env_map''), (''lights'', JList []),
      (''env_map'', JDict [(''strength'', JNum 0.8)])] [] =
   setup_lighting_from_metadata
     [(''lighting_type'', JStr ''env_map''), (''lights'', JList []),
      (''env_map'', JDict [(''strength'', JNum 1.15)])] [] \<and>
   [(''lighting_type'', JStr ''env_map''), (''lights'', JList []),
    (''env_map'', JDict [(''strength'', JNum 0.8)])] \<noteq>
   [(''lighting_type'', JStr ''env_map''), (''lights'', JList []),
    (''env_map'', JDict [(''strength'', JNum (1.15 :: real))])]"
  by (simp add: generate_random_lighting_setup_def lighting_types_def generate_for_def
      generate_env_map_def uniform_def py_random_def setup_lighting_from_metadata_def valid_types_def)

lemma studio_zero_generated:
  "generate_random_lighting_setup (Some ''studio'') [sample_area_light] (\<lambda>n. 0) =
     (Inr (studio_zero_lights, studio_zero_metadata), sample_area_light # studio_zero_lights,
      \<lambda>n. 0)"
  by (simp add: generate_random_lighting_setup_def lighting_types_def generate_for_def
      generate_studio_def setup_studio_lighting_def uniform_def py_random_def Let_def
      add_area_light_ok blackbody_to_rgb_def studio_zero_lights_def studio_zero_metadata_def)

text \<open>
  C1, witness: the studio setup drawn from the all-zero random source in a scene that
  already holds a light. Its record, replayed in that scene, creates the three area lights
  of the setup (energies 800, 200 and 400, the colours of 4000 K, 6000 K and 2700 K) after
  the light that was there.
\<close>

theorem generated_metadata_replays_witness:
  "setup_lighting_from_metadata studio_zero_metadata [sample_area_light] =
     (Inr studio_zero_lights, sample_area_light # studio_zero_lights)"
  by (rule generated_metadata_replays [OF studio_zero_generated])

section \<open>Generation within bounds\<close>

lemma valid_rngD: "valid_rng g \<Longrightarrow> 0 \<le> g n \<and> g n < 1"
  by (simp add: valid_rng_def)

lemma valid_rng_tail: "valid_rng g \<Longrightarrow> valid_rng (\<lambda>n. g (Suc n))"
  by (simp add: valid_rng_def)

lemma uniform_bounds:
  assumes "valid_rng g" and "a \<le> b"
  shows "\<exists>x g'. uniform a b g = (x, g') \<and> a \<le> x \<and> x \<le> b \<and> valid_rng g'"
proof -
  have u: "0 \<le> g 0" "g 0 \<le> 1"
    using valid_rngD [OF assms(1), of 0] by simp_all
  have lo: "0 \<le> (b - a) * g 0"
    using assms(2) u by simp
  have "(b - a) * g 0 \<le> (b - a) * 1"
    using assms(2) u by (intro mult_left_mono) simp_all
  then have hi: "a + (b - a) * g 0 \<le> b"
    by simp
  show ?thesis
    using lo hi valid_rng_tail [OF assms(1)] by (simp add: uniform_def py_random_def)
qed

lemma randint_bounds:
  assumes "valid_rng g" and "a \<le> b"
  shows "\<exists>k g'. randint a b g = (k, g') \<and> a \<le> k \<and> k \<le> b \<and> valid_rng g'"
proof -
  have u: "0 \<le> g 0" "g 0 < 1"
    using valid_rngD [OF assms(1), of 0] by simp_all
  have n: "(0::real) < of_int (b - a + 1)"
    using assms(2) by simp
  have "0 \<le> g 0 * of_int (b - a + 1)"
    using u n by simp
  then have lo: "0 \<le> \<lfloor>g 0 * of_int (b - a + 1)\<rfloor>"
    by simp
  have "g 0 * of_int (b - a + 1) < 1 * of_int (b - a + 1)"
    by (rule mult_strict_right_mono [OF u(2) n])
  then have "g 0 * of_int (b - a + 1) < of_int (b - a + 1)"
    by (simp only: mult_1_left)
  then have "\<lfloor>g 0 * of_int (b - a + 1)\<rfloor> < b - a + 1"
    by (rule floor_less_iff [THEN iffD2])
  then have hi: "a + \<lfloor>g 0 * of_int (b - a + 1)\<rfloor> \<le> b"
    by linarith
  show ?thesis
    using lo hi valid_rng_tail [OF assms(1)] by (simp add: randint_def py_random_def)
qed

lemma choices_valid_rng:
  "valid_rng g \<Longrightarrow> valid_rng (snd (choices population weights g))"
  by (simp add: choices_def py_random_def Let_def valid_rng_tail)

lemma radians_mono: "a \<le> b \<Longrightarrow> radians a \<le> radians b"
  by (simp add: radians_def divide_right_mono mult_right_mono)

lemma sphere_norm:
  "(r * sin phi * cos theta)\<^sup>2 + (r * sin phi * sin theta)\<^sup>2 + (r * cos phi)\<^sup>2 = r\<^sup>2"
  for r :: real
proof -
  have a: "(r * sin phi * cos theta)\<^sup>2 = r\<^sup>2 * ((sin phi)\<^sup>2 * (cos theta)\<^sup>2)"
    by (simp only: power_mult_distrib mult.assoc)
  have b: "(r * sin phi * sin theta)\<^sup>2 = r\<^sup>2 * ((sin phi)\<^sup>2 * (sin theta)\<^sup>2)"
    by (simp only: power_mult_distrib mult.assoc)
  have c: "(r * cos phi)\<^sup>2 = r\<^sup>2 * (cos phi)\<^sup>2"
    by (simp only: power_mult_distrib)
  have "(r * sin phi * cos theta)\<^sup>2 + (r * sin phi * sin theta)\<^sup>2 + (r * cos phi)\<^sup>2
      = r\<^sup>2 * ((sin phi)\<^sup>2 * ((cos theta)\<^sup>2 + (sin theta)\<^sup>2) + (cos phi)\<^sup>2)"
    by (simp only: a b c distrib_left)
  also have "\<dots> = r\<^sup>2"
    by simp
  finally show ?thesis .
qed

lemma radius_squared: "2 \<le> r \<Longrightarrow> r \<le> 4 \<Longrightarrow> 4 \<le> r\<^sup>2 \<and> r\<^sup>2 \<le> (16::real)"
proof -
  assume a: "2 \<le> r" "r \<le> 4"
  have "2\<^sup>2 \<le> r\<^sup>2" using a by (intro power_mono) simp_all
  moreover have "r\<^sup>2 \<le> 4\<^sup>2" using a by (intro power_mono) simp_all
  ultimately show ?thesis by simp
qed

lemma length_tuple3 [simp]: "length (tuple3 v) = 3"
  by (simp add: tuple3_def)

lemma tuple3_not_Nil [simp]: "tuple3 v \<noteq> []"
  by (simp add: tuple3_def)

lemma nth_tuple3 [simp]:
  "tuple3 v ! 0 = JNum (fst v)"
  "tuple3 v ! 1 = JNum (fst (snd v))"
  "tuple3 v ! Suc 0 = JNum (fst (snd v))"
  "tuple3 v ! 2 = JNum (snd (snd v))"
  by (simp_all add: tuple3_def)

lemmas bound_defs =
  field_in_def component_in_def radius_in_def py_index_def light_kind_def sphere_point_def
  sphere_norm

lemma studio_ok:
  assumes "valid_rng g"
  shows "\<exists>lights md sc' g'. generate_studio sc g = (Inr (lights, md), sc', g') \<and>
     map_of md ''lighting_type'' = Some (JStr ''studio'') \<and>
     cardinality_ok md lights \<and> sampled_in_bounds md"
proof -
  from uniform_bounds [OF assms, of 800 1500] obtain ke g1 where
    u1: "uniform 800 1500 g = (ke, g1)" and b1: "800 \<le> ke" "ke \<le> 1500" and v1: "valid_rng g1"
    by auto
  from uniform_bounds [OF v1, of 200 600] obtain fe g2 where
    u2: "uniform 200 600 g1 = (fe, g2)" and b2: "200 \<le> fe" "fe \<le> 600" and v2: "valid_rng g2"
    by auto
  from uniform_bounds [OF v2, of 400 800] obtain be g3 where
    u3: "uniform 400 800 g2 = (be, g3)" and b3: "400 \<le> be" "be \<le> 800" and v3: "valid_rng g3"
    by auto
  from uniform_bounds [OF v3, of 4000 5500] obtain kt g4 where
    u4: "uniform 4000 5500 g3 = (kt, g4)" and b4: "4000 \<le> kt" "kt \<le> 5500" and v4: "valid_rng g4"
    by auto
  from uniform_bounds [OF v4, of 6000 7500] obtain ft g5 where
    u5: "uniform 6000 7500 g4 = (ft, g5)" and b5: "6000 \<le> ft" "ft \<le> 7500" and v5: "valid_rng g5"
    by auto
  from uniform_bounds [OF v5, of 2700 3500] obtain bt g6 where
    u6: "uniform 2700 3500 g5 = (bt, g6)" and b6: "2700 \<le> bt" "bt \<le> 3500" and v6: "valid_rng g6"
    by auto
  show ?thesis
    by (simp add: generate_studio_def setup_studio_lighting_def Let_def u1 u2 u3 u4 u5 u6
        add_area_light_ok cardinality_ok_def sampled_in_bounds_def studio_bounds_def bound_defs
        b1 b2 b3 b4 b5 b6)
qed

lemma env_map_ok:
  assumes "valid_rng g"
  shows "\<exists>lights md sc' g'. generate_env_map sc g = (Inr (lights, md), sc', g') \<and>
     map_of md ''lighting_type'' = Some (JStr ''env_map'') \<and>
     cardinality_ok md lights \<and> sampled_in_bounds md"
proof -
  from uniform_bounds [OF assms, of "0.8" "1.5"] obtain s g1 where
    u1: "uniform 0.8 1.5 g = (s, g1)" and b1: "0.8 \<le> s" "s \<le> 1.5"
    by auto
  show ?thesis
    unfolding generate_env_map_def Let_def u1 prod.case
    using b1
    by (simp add: cardinality_ok_def sampled_in_bounds_def bound_defs)
qed

lemma natural_ok:
  assumes "valid_rng g"
  shows "\<exists>lights md sc' g'. generate_natural sc g = (Inr (lights, md), sc', g') \<and>
     map_of md ''lighting_type'' = Some (JStr ''natural'') \<and>
     cardinality_ok md lights \<and> sampled_in_bounds md"
proof -
  from uniform_bounds [OF assms, of "- 60" "- 30"] obtain el g1 where
    u1: "uniform (- 60) (- 30) g = (el, g1)" and b1: "- 60 \<le> el" "el \<le> - 30"
    and v1: "valid_rng g1"
    by auto
  from uniform_bounds [OF v1, of 0 360] obtain az g2 where
    u2: "uniform 0 360 g1 = (az, g2)" and b2: "0 \<le> az" "az \<le> 360" and v2: "valid_rng g2"
    by auto
  from uniform_bounds [OF v2, of 2 5] obtain se g3 where
    u3: "uniform 2 5 g2 = (se, g3)" and b3: "2 \<le> se" "se \<le> 5" and v3: "valid_rng g3"
    by auto
  from uniform_bounds [OF v3, of "0.5" 5] obtain sa g4 where
    u4: "uniform 0.5 5 g3 = (sa, g4)" and b4: "0.5 \<le> sa" "sa \<le> 5" and v4: "valid_rng g4"
    by auto
  from uniform_bounds [OF v4, of 4000 5500] obtain st g5 where
    u5: "uniform 4000 5500 g4 = (st, g5)" and b5: "4000 \<le> st" "st \<le> 5500" and v5: "valid_rng g5"
    by auto
  from uniform_bounds [OF v5, of "- 3" 3] obtain fx g6 where
    u6: "uniform (- 3) 3 g5 = (fx, g6)" and b6: "- 3 \<le> fx" "fx \<le> 3" and v6: "valid_rng g6"
    by auto
  from uniform_bounds [OF v6, of "- 3" 3] obtain fy g7 where
    u7: "uniform (- 3) 3 g6 = (fy, g7)" and b7: "- 3 \<le> fy" "fy \<le> 3" and v7: "valid_rng g7"
    by auto
  from uniform_bounds [OF v7, of 1 3] obtain fz g8 where
    u8: "uniform 1 3 g7 = (fz, g8)" and b8: "1 \<le> fz" "fz \<le> 3" and v8: "valid_rng g8"
    by auto
  from uniform_bounds [OF v8, of 200 400] obtain fe g9 where
    u9: "uniform 200 400 g8 = (fe, g9)" and b9: "200 \<le> fe" "fe \<le> 400" and v9: "valid_rng g9"
    by auto
  from uniform_bounds [OF v9, of 6000 7500] obtain ft g10 where
    u10: "uniform 6000 7500 g9 = (ft, g10)" and b10: "6000 \<le> ft" "ft \<le> 7500"
    and v10: "valid_rng g10"
    by auto
  from uniform_bounds [OF v10, of 1 3] obtain s0 g11 where
    u11: "uniform 1 3 g10 = (s0, g11)" and b11: "1 \<le> s0" "s0 \<le> 3" and v11: "valid_rng g11"
    by auto
  from uniform_bounds [OF v11, of 1 3] obtain s1 g12 where
    u12: "uniform 1 3 g11 = (s1, g12)" and b12: "1 \<le> s1" "s1 \<le> 3"
    by auto
  have r1: "radians (- 60) \<le> radians el" "radians el \<le> radians (- 30)"
    using b1 by (simp_all add: radians_mono)
  have r2: "0 \<le> radians az" "radians az \<le> radians 360"
    using b2 radians_mono [of 0 az] by (simp_all add: radians_mono radians_def)
  have r4: "radians 0.5 \<le> radians sa" "radians sa \<le> radians 5"
    using b4 radians_mono [of "0.5" sa] radians_mono [of sa 5] by simp_all
  show ?thesis
    unfolding generate_natural_def Let_def u1 u2 u3 u4 u5 u6 u7 u8 u9 u10 u11 u12 prod.case
    using r1 r2 b3 r4 b5 b6 b7 b8 b9 b10 b11 b12
    by (simp add: add_area_light_ok add_sun_light_ok cardinality_ok_def sampled_in_bounds_def
        natural_bounds_def bound_defs)
qed

lemma dramatic_light_ok:
  assumes "valid_rng g"
  shows "\<exists>l info sc' g'. dramatic_light i sc g = (Inr (l, info), sc', g') \<and> valid_rng g' \<and>
     light_kind l = ''AREA'' \<and> dramatic_bounds info"
proof -
  from uniform_bounds [OF assms, of 0 "2 * pi"] obtain theta g1 where
    u1: "uniform 0 (2 * pi) g = (theta, g1)" and v1: "valid_rng g1"
    by auto
  from uniform_bounds [OF v1, of 0 "pi / 2"] obtain phi g2 where
    u2: "uniform 0 (pi / 2) g1 = (phi, g2)" and b2: "0 \<le> phi" "phi \<le> pi / 2"
    and v2: "valid_rng g2"
    by auto
  from uniform_bounds [OF v2, of 2 4] obtain r g3 where
    u3: "uniform 2 4 g2 = (r, g3)" and b3: "2 \<le> r" "r \<le> 4" and v3: "valid_rng g3"
    by auto
  from uniform_bounds [OF v3, of 1000 2000] obtain en g4 where
    u4: "uniform 1000 2000 g3 = (en, g4)" and b4: "1000 \<le> en" "en \<le> 2000"
    and v4: "valid_rng g4"
    by auto
  from uniform_bounds [OF v4, of 2700 3500] obtain t g5 where
    u5: "uniform 2700 3500 g4 = (t, g5)" and b5: "2700 \<le> t" "t \<le> 3500" and v5: "valid_rng g5"
    by auto
  from uniform_bounds [OF v5, of "0.5" 2] obtain s0 g6 where
    u6: "uniform 0.5 2 g5 = (s0, g6)" and b6: "0.5 \<le> s0" "s0 \<le> 2" and v6: "valid_rng g6"
    by auto
  from uniform_bounds [OF v6, of "0.5" 2] obtain s1 g7 where
    u7: "uniform 0.5 2 g6 = (s1, g7)" and b7: "0.5 \<le> s1" "s1 \<le> 2" and v7: "valid_rng g7"
    by auto
  have c: "0 \<le> cos phi" "cos phi \<le> 1"
    using b2 by (simp_all add: cos_ge_zero)
  have z: "0 \<le> r * cos phi" "r * cos phi \<le> 4"
  proof -
    show "0 \<le> r * cos phi" using b3 c by simp
    have "r * cos phi \<le> 4 * 1" using b3 c by (intro mult_mono) simp_all
    then show "r * cos phi \<le> 4" by simp
  qed
  note rr = radius_squared [OF b3]
  show ?thesis
    unfolding dramatic_light_def Let_def u1 u2 u3 u4 u5 u6 u7 prod.case
    using v7 b4 b5 b6 b7 z rr
    by (simp add: add_area_light_ok dramatic_bounds_def bound_defs)
qed

lemma random_light_ok:
  assumes "valid_rng g"
  shows "\<exists>l info sc' g'. random_light i sc g = (Inr (l, info), sc', g') \<and> valid_rng g' \<and>
     light_kind l = ''POINT'' \<and> random_bounds info"
proof -
  from uniform_bounds [OF assms, of 0 "2 * pi"] obtain theta g1 where
    u1: "uniform 0 (2 * pi) g = (theta, g1)" and v1: "valid_rng g1"
    by auto
  from uniform_bounds [OF v1, of 0 pi] obtain phi g2 where
    u2: "uniform 0 pi g1 = (phi, g2)" and v2: "valid_rng g2"
    by auto
  from uniform_bounds [OF v2, of 2 4] obtain r g3 where
    u3: "uniform 2 4 g2 = (r, g3)" and b3: "2 \<le> r" "r \<le> 4" and v3: "valid_rng g3"
    by auto
  from uniform_bounds [OF v3, of 300 800] obtain en g4 where
    u4: "uniform 300 800 g3 = (en, g4)" and b4: "300 \<le> en" "en \<le> 800" and v4: "valid_rng g4"
    by auto
  from uniform_bounds [OF v4, of 4000 5500] obtain t g5 where
    u5: "uniform 4000 5500 g4 = (t, g5)" and b5: "4000 \<le> t" "t \<le> 5500" and v5: "valid_rng g5"
    by auto
  note rr = radius_squared [OF b3]
  show ?thesis
    unfolding random_light_def Let_def u1 u2 u3 u4 u5 prod.case
    using v5 b4 b5 rr
    by (simp add: add_point_light_ok random_bounds_def bound_defs)
qed

lemma gen_loop_ok:
  assumes body: "\<And>i sc g. valid_rng g \<Longrightarrow>
      \<exists>l info sc' g'. body i sc g = (Inr (l, info), sc', g') \<and> valid_rng g' \<and> P l \<and> Q info"
  shows "valid_rng g \<Longrightarrow>
     \<exists>lights infos sc' g'. gen_loop body i n sc g = (Inr (lights, infos), sc', g') \<and>
       valid_rng g' \<and> length lights = n \<and> list_all P lights \<and> list_all Q infos"
proof (induction n arbitrary: i sc g)
  case 0
  then show ?case by simp
next
  case (Suc n)
  from body [OF Suc.prems, of i sc] obtain l info s1 g1 where
    b: "body i sc g = (Inr (l, info), s1, g1)" and v: "valid_rng g1" and p: "P l" "Q info"
    by blast
  from Suc.IH [OF v, of "Suc i" s1] obtain ls rest s2 g2 where
    r: "gen_loop body (Suc i) n s1 g1 = (Inr (ls, rest), s2, g2)" and v2: "valid_rng g2"
    and q: "length ls = n" "list_all P ls" "list_all Q rest"
    by blast
  show ?case
    by (simp add: b r v2 p q)
qed

lemma dramatic_ok:
  assumes "valid_rng g"
  shows "\<exists>lights md sc' g'. generate_dramatic sc g = (Inr (lights, md), sc', g') \<and>
     map_of md ''lighting_type'' = Some (JStr ''dramatic'') \<and>
     cardinality_ok md lights \<and> sampled_in_bounds md"
proof -
  from randint_bounds [OF assms, of 1 2] obtain k g1 where
    k: "randint 1 2 g = (k, g1)" and kb: "1 \<le> k" "k \<le> 2" and v1: "valid_rng g1"
    by auto
  from gen_loop_ok [of dramatic_light "\<lambda>l. light_kind l = ''AREA''" dramatic_bounds,
      OF dramatic_light_ok v1, of 0 "nat k" sc]
  obtain lights infos s2 g2 where
    r: "gen_loop dramatic_light 0 (nat k) sc g1 = (Inr (lights, infos), s2, g2)"
    and q: "length lights = nat k" "list_all (\<lambda>l. light_kind l = ''AREA'') lights"
      "list_all dramatic_bounds infos"
    by blast
  have "length lights = 1 \<or> length lights = 2"
    using q(1) kb by auto
  then show ?thesis
    using q(2,3)
    by (simp add: generate_dramatic_def generate_loop_def k r cardinality_ok_def
        sampled_in_bounds_def)
qed

lemma random_ok:
  assumes "valid_rng g"
  shows "\<exists>lights md sc' g'. generate_random ''random'' sc g = (Inr (lights, md), sc', g') \<and>
     map_of md ''lighting_type'' = Some (JStr ''random'') \<and>
     cardinality_ok md lights \<and> sampled_in_bounds md"
proof -
  from randint_bounds [OF assms, of 2 5] obtain k g1 where
    k: "randint 2 5 g = (k, g1)" and kb: "2 \<le> k" "k \<le> 5" and v1: "valid_rng g1"
    by auto
  from gen_loop_ok [of random_light "\<lambda>l. light_kind l = ''POINT''" random_bounds,
      OF random_light_ok v1, of 0 "nat k" sc]
  obtain lights infos s2 g2 where
    r: "gen_loop random_light 0 (nat k) sc g1 = (Inr (lights, infos), s2, g2)"
    and q: "length lights = nat k" "list_all (\<lambda>l. light_kind l = ''POINT'') lights"
      "list_all random_bounds infos"
    by blast
  have "2 \<le> length lights \<and> length lights \<le> 5"
    using q(1) kb by auto
  then show ?thesis
    using q(2,3)
    by (simp add: generate_random_def generate_loop_def k r cardinality_ok_def
        sampled_in_bounds_def)
qed

lemma generate_for_ok:
  assumes "valid_rng g" and "lt \<in> set (map fst lighting_types)"
  shows "\<exists>lights md sc' g'. generate_for lt sc g = (Inr (lights, md), sc', g') \<and>
     map_of md ''lighting_type'' = Some (JStr lt) \<and>
     cardinality_ok md lights \<and> sampled_in_bounds md"
proof -
  from assms(2) consider "lt = ''env_map''" | "lt = ''studio''" | "lt = ''dramatic''"
    | "lt = ''natural''" | "lt = ''random''"
    by (auto simp: lighting_types_def)
  then show ?thesis
  proof cases
    case 1
    with env_map_ok [OF assms(1), of sc] show ?thesis by (simp add: generate_for_def)
  next
    case 2
    with studio_ok [OF assms(1), of sc] show ?thesis by (simp add: generate_for_def)
  next
    case 3
    with dramatic_ok [OF assms(1), of sc] show ?thesis by (simp add: generate_for_def)
  next
    case 4
    with natural_ok [OF assms(1), of sc] show ?thesis by (simp add: generate_for_def)
  next
    case 5
    with random_ok [OF assms(1), of sc] show ?thesis by (simp add: generate_for_def)
  qed
qed

lemma generate_ok:
  assumes "valid_rng g"
    and "case lighting_type of None \<Rightarrow> True | Some lt \<Rightarrow> lt \<in> set (map fst lighting_types)"
  shows "\<exists>lights md sc' g'.
     generate_random_lighting_setup lighting_type sc g = (Inr (lights, md), sc', g') \<and>
     (\<forall>lt. lighting_type = Some lt \<longrightarrow> map_of md ''lighting_type'' = Some (JStr lt)) \<and>
     cardinality_ok md lights \<and> sampled_in_bounds md"
proof (cases lighting_type)
  case None
  obtain lt g1 where c: "choices (map fst lighting_types) (map snd lighting_types) g = (lt, g1)"
    by (cases "choices (map fst lighting_types) (map snd lighting_types) g")
  have m: "lt \<in> set (map fst lighting_types)"
    using choices_mem [of "map fst lighting_types" "map snd lighting_types" g] c
    by (simp add: lighting_types_def)
  have v: "valid_rng g1"
    using choices_valid_rng [OF assms(1), of "map fst lighting_types" "map snd lighting_types"] c
    by simp
  from generate_for_ok [OF v m, of sc] show ?thesis
    by (auto simp: generate_random_lighting_setup_def None c)
next
  case (Some lt)
  with assms(2) have m: "lt \<in> set (map fst lighting_types)"
    by simp
  from generate_for_ok [OF assms(1) m, of sc] m show ?thesis
    by (auto simp: generate_random_lighting_setup_def Some)
qed

section \<open>Determinism, cardinality and bounds\<close>

text \<open>
  C9. Reconstruction consumes no randomness and is a function of the record. Run in a
  program state (a scene and a random source), the call returns the same result (the
  lights, or the error) from any two states, whatever their random sources and scenes,
  and leaves the random source as it found it. For a record the generator emitted, the
  replay under any other random source returns the lights the generator created.
\<close>

theorem reconstruction_deterministic:
  "fst (run_setup_lighting_from_metadata md (scene_a, rng_a)) =
     fst (run_setup_lighting_from_metadata md (scene_b, rng_b)) \<and>
   snd (snd (run_setup_lighting_from_metadata md (sc, other))) = other \<and>
   (generate_random_lighting_setup lighting_type sc g = (Inr (lights, md), sc', g') \<longrightarrow>
      run_setup_lighting_from_metadata md (sc, other) = (Inr lights, sc', other))"
proof -
  have a: "fst (setup_lighting_from_metadata md scene_a) = fst (setup_lighting_from_metadata md scene_b)"
    by (simp add: setup_sc [of md scene_a] setup_sc [of md scene_b] split: prod.split)
  have b: "setup_lighting_from_metadata md sc = (Inr lights, sc')"
    if "generate_random_lighting_setup lighting_type sc g = (Inr (lights, md), sc', g')"
    using that by (rule generate_replays)
  show ?thesis
    using a b by (auto simp: run_setup_lighting_from_metadata_def split: prod.splits)
qed

text \<open>
  C9, witness: the studio record generated with the all-zero random source, replayed with
  the random source that always draws 1/2.
\<close>

theorem reconstruction_deterministic_witness:
  "run_setup_lighting_from_metadata studio_zero_metadata ([sample_area_light], \<lambda>n. 1 / 2) =
     (Inr studio_zero_lights, sample_area_light # studio_zero_lights, \<lambda>n. 1 / 2)"
  using reconstruction_deterministic [where lighting_type = "Some ''studio''"
      and sc = "[sample_area_light]" and g = "\<lambda>n. 0" and lights = studio_zero_lights
      and md = studio_zero_metadata and sc' = "sample_area_light # studio_zero_lights"
      and g' = "\<lambda>n. 0" and other = "\<lambda>n. 1 / 2"]
    studio_zero_generated
  by simp

text \<open>
  C7. For every random source with draws in [0, 1) and every scene, generation with a
  valid archetype (or none, drawing one) returns a setup: studio, three area lights with
  the roles key, fill, back; dramatic, one or two area lights; natural, a sun and an area
  light; random, two to five point lights; env_map, no light.
\<close>

theorem cardinality_per_archetype:
  assumes "valid_rng g"
    and "case lighting_type of None \<Rightarrow> True | Some lt \<Rightarrow> lt \<in> set (map fst lighting_types)"
  shows "\<exists>lights md sc' g'.
     generate_random_lighting_setup lighting_type sc g = (Inr (lights, md), sc', g') \<and>
     (\<forall>lt. lighting_type = Some lt \<longrightarrow> map_of md ''lighting_type'' = Some (JStr lt)) \<and>
     cardinality_ok md lights"
  using generate_ok [OF assms, of sc] by blast

text \<open>C7, witness: the studio setup drawn from the all-zero random source, three area lights.\<close>

theorem cardinality_per_archetype_witness:
  "cardinality_ok studio_zero_metadata studio_zero_lights"
  using cardinality_per_archetype [of "\<lambda>n. 0" "Some ''studio''" "[sample_area_light]"]
    studio_zero_generated
  by (simp add: valid_rng_def lighting_types_def)



section \<open>The colour-temperature model at its spot values\<close>


text \<open>
  C2 (as stated, refuted). The claim gives the colour at 4000 K as (1.0, 1.0, 0.8). The
  first branch applies at 4000 K (the test is \<open>\<le>\<close>), and there blue is
  0.4 + 0.6 = 1.0, not 0.8.
\<close>

theorem blackbody_4000_counterexample:
  "blackbody_to_rgb 4000 \<noteq> (1, 1, 0.8)"
  by (simp add: blackbody_to_rgb_def)

text \<open>
  C2 (amended). The colour model maps 2700 K to (1.0, 0.7, 0.4), and both 4000 K and
  6500 K to (1.0, 1.0, 1.0).
\<close>

theorem blackbody_spot_values:
  "blackbody_to_rgb 2700 = (1, 0.7, 0.4) \<and>
   blackbody_to_rgb 4000 = (1, 1, 1) \<and>
   blackbody_to_rgb 6500 = (1, 1, 1)"
  by (simp add: blackbody_to_rgb_def)

end
